theory Spec2Isabelle
  imports Main
begin

section \<open>The documentation scraper of scripts/scrape_docs.py\<close>

text \<open>
  A shallow embedding of the class \<open>ClaudeCodeDocsScraper\<close> and of \<open>main\<close>.
  The scraper is a sequential pipeline around three libraries (an HTTP client, an HTML
  parser with CSS selectors, an HTML to Markdown converter), the clock and the file
  system. Their answers are parameters of the model: a \<open>world\<close> gives the answer of
  every request, clock read and file operation at each moment (the \<open>tick\<close> of the
  state counts the interactions so far, so an answer may change from one attempt to the
  next), and an \<open>html_lib\<close> gives the pure functions of the HTML libraries.
  Every effect of the program is appended to the \<open>trace\<close> of the state: the
  requests, the sleeps, the clock reads, the file operations and every logging call,
  whatever the level that the handlers let through. The set-up of the logging
  handlers and an interrupt from the keyboard are outside the model.
\<close>

subsection \<open>Configuration document\<close>

text \<open>
  The YAML document, as the code reads it. The three output flags are read with
  \<open>output_config.get(key, True)\<close>, so each may be absent; the other keys are read
  with \<open>config[key]\<close> and are taken to be present. Durations are non-negative
  numbers of time units.
\<close>

record doc_section =
  name :: string
  url_suffix :: string
  filename :: string
  description :: string

record scraping_config =
  user_agent :: string
  timeout :: nat
  retries :: int
  delay_between_requests :: nat
  remove_elements :: "string list"
  content_selectors :: "string list"

record output_config =
  docs_folder :: string
  index_file :: string
  add_section_headers :: "bool option"
  add_source_url :: "bool option"
  add_timestamp :: "bool option"

record config =
  base_url :: string
  scraping :: scraping_config
  output_conf :: output_config
  sections :: "doc_section list"

text \<open>\<open>d.get(key, True)\<close> on a flag that may be absent.\<close>

definition get_flag :: "bool option \<Rightarrow> bool" where
  "get_flag v = (case v of None \<Rightarrow> True | Some b \<Rightarrow> b)"

subsection \<open>Time stamps\<close>

record datetime =
  year :: nat
  month :: nat
  day :: nat
  hour :: nat
  minute :: nat
  second :: nat

definition digit :: "nat \<Rightarrow> char" where
  "digit n = ''0123456789'' ! (n mod 10)"

definition pad2 :: "nat \<Rightarrow> string" where
  "pad2 n = [digit (n div 10), digit n]"

definition pad4 :: "nat \<Rightarrow> string" where
  "pad4 n = [digit (n div 1000), digit (n div 100), digit (n div 10), digit n]"

text \<open>\<open>dt.strftime("%Y-%m-%d %H:%M:%S UTC")\<close>: the text \<open>UTC\<close> is a literal of the format.\<close>

definition strftime :: "datetime \<Rightarrow> string" where
  "strftime dt =
     pad4 (year dt) @ ''-'' @ pad2 (month dt) @ ''-'' @ pad2 (day dt) @ '' '' @
     pad2 (hour dt) @ '':'' @ pad2 (minute dt) @ '':'' @ pad2 (second dt) @ '' UTC''"

subsection \<open>Exceptions, responses, log records and effects\<close>

datatype exn =
    RequestException
  | HTTPError nat
  | ConversionError
  | OSError
  | ZeroDivisionError

record response =
  status_code :: nat
  content :: string

datatype http_result = Responds response | Raises

datatype 'a load = FileNotFound | YAMLError | Loaded 'a

datatype level = DEBUG | INFO | WARNING | ERROR

text \<open>One constructor for each logging call of the source, with the values it formats.\<close>

datatype msg =
    MsgRequesting string nat int
  | MsgAttemptFailed nat string exn
  | MsgFetchFailed string int exn
  | MsgFoundContent string
  | MsgNoContentFound
  | MsgScrapingSection string
  | MsgNoContentExtracted string
  | MsgConvertFailed string exn
  | MsgSaved string
  | MsgSaveFailed string exn
  | MsgCreatedIndex string
  | MsgSectionNotFound string
  | MsgStarting nat
  | MsgProcessing nat nat string
  | MsgStatsHeader
  | MsgTotal nat
  | MsgSuccessful nat
  | MsgFailed nat
  | MsgSuccessRate nat nat
  | MsgDuration datetime datetime
  | MsgStatsFooter

datatype wkind = SectionFile | IndexFile

datatype event =
    EvLog level msg
  | EvHttpGet string
  | EvSleep nat
  | EvNow
  | EvOpen wkind string bool
  | EvWrite wkind string string bool

subsection \<open>The world and the HTML libraries\<close>

text \<open>
  \<open>http_get w t url\<close> is what \<open>session.get(url, timeout=...)\<close> does at moment \<open>t\<close>: a
  response, or a \<open>requests.exceptions.RequestException\<close>. \<open>now_local\<close> is the naive
  local time that \<open>datetime.now()\<close> returns; \<open>now_utc\<close> is the UTC time of the same
  moment. \<open>open_fails w t p\<close> says that \<open>open(p, 'w')\<close> raises; \<open>write_fault w t p\<close> is
  \<open>None\<close> when the text is written and the file closed, and \<open>Some k\<close> when writing
  or closing raises after \<open>k\<close> characters have reached the file. \<open>joinpath\<close> is
  the \<open>/\<close> operator of \<open>pathlib\<close>.
\<close>

record world =
  http_get :: "nat \<Rightarrow> string \<Rightarrow> http_result"
  now_local :: "nat \<Rightarrow> datetime"
  now_utc :: "nat \<Rightarrow> datetime"
  open_fails :: "nat \<Rightarrow> string \<Rightarrow> bool"
  write_fault :: "nat \<Rightarrow> string \<Rightarrow> nat option"
  joinpath :: "string \<Rightarrow> string \<Rightarrow> string"
  config_files :: "string \<Rightarrow> config load"
  mkdir_fails :: "string \<Rightarrow> bool"
  initial_files :: "string \<rightharpoonup> string"

text \<open>
  \<open>parse\<close> is \<open>BeautifulSoup(content, 'html.parser')\<close>, \<open>select\<close> is \<open>soup.select\<close>
  (all matches, in document order; selectors are taken to be well-formed),
  \<open>decompose\<close> removes an element from the document, \<open>to_str\<close> is \<open>str(element)\<close>
  and \<open>md\<close> is \<open>markdownify\<close>, \<open>None\<close> when it raises.
\<close>

record ('d, 'n) html_lib =
  parse :: "string \<Rightarrow> 'd"
  select :: "string \<Rightarrow> 'd \<Rightarrow> 'n list"
  decompose :: "'n \<Rightarrow> 'd \<Rightarrow> 'd"
  to_str :: "'d \<Rightarrow> 'n \<Rightarrow> string"
  md :: "string \<Rightarrow> string option"

subsection \<open>Program state\<close>

record run_stats =
  total_sections :: nat
  successful_scrapes :: nat
  failed_scrapes :: nat
  start_time :: datetime

record state =
  stats :: run_stats
  files :: "string \<rightharpoonup> string"
  trace :: "event list"
  tick :: nat

definition logm :: "level \<Rightarrow> msg \<Rightarrow> state \<Rightarrow> state" where
  "logm l m s = s\<lparr>trace := trace s @ [EvLog l m]\<rparr>"

text \<open>An interaction with the world: it is recorded and time moves on.\<close>

definition emit :: "event \<Rightarrow> state \<Rightarrow> state" where
  "emit e s = s\<lparr>trace := trace s @ [e], tick := Suc (tick s)\<rparr>"

definition time_sleep :: "nat \<Rightarrow> state \<Rightarrow> state" where
  "time_sleep d s = emit (EvSleep d) s"

definition bump_failed :: "state \<Rightarrow> state" where
  "bump_failed s = s\<lparr>stats := (stats s)\<lparr>failed_scrapes := failed_scrapes (stats s) + 1\<rparr>\<rparr>"

definition bump_successful :: "state \<Rightarrow> state" where
  "bump_successful s =
     s\<lparr>stats := (stats s)\<lparr>successful_scrapes := successful_scrapes (stats s) + 1\<rparr>\<rparr>"

subsection \<open>\<open>_make_request\<close>\<close>

text \<open>\<open>response.raise_for_status()\<close>: an \<open>HTTPError\<close> for a 4xx or 5xx status.\<close>

definition raise_for_status :: "response \<Rightarrow> exn + response" where
  "raise_for_status resp =
     (if 400 \<le> status_code resp \<and> status_code resp < 600
      then Inl (HTTPError (status_code resp)) else Inr resp)"

text \<open>The body of the \<open>try\<close>: the request, then the status check.\<close>

definition try_get :: "world \<Rightarrow> nat \<Rightarrow> string \<Rightarrow> exn + response" where
  "try_get w t url =
     (case http_get w t url of
        Raises \<Rightarrow> Inl RequestException
      | Responds resp \<Rightarrow> raise_for_status resp)"

text \<open>\<open>bool(response)\<close> is \<open>response.ok\<close>: no error status.\<close>

definition response_ok :: "response \<Rightarrow> bool" where
  "response_ok resp = (case raise_for_status resp of Inl _ \<Rightarrow> False | Inr _ \<Rightarrow> True)"

text \<open>
  \<open>for attempt in range(retries + 1)\<close>: the list holds the attempts still to make.
  Falling out of the loop is the final \<open>return None\<close>.
\<close>

fun attempt_loop ::
  "config \<Rightarrow> world \<Rightarrow> string \<Rightarrow> int \<Rightarrow> nat list \<Rightarrow> state \<Rightarrow> response option \<times> state"
where
  "attempt_loop cfg w url r [] s = (None, s)"
| "attempt_loop cfg w url r (attempt # rest) s =
     (let s1 = logm DEBUG (MsgRequesting url (attempt + 1) (r + 1)) s;
          s2 = emit (EvHttpGet url) s1
      in case try_get w (tick s1) url of
           Inr resp \<Rightarrow> (Some resp, s2)
         | Inl e \<Rightarrow>
             if int attempt = r
             then (None, logm ERROR (MsgFetchFailed url (r + 1) e) s2)
             else attempt_loop cfg w url r rest
                    (time_sleep (delay_between_requests (scraping cfg))
                       (logm WARNING (MsgAttemptFailed (attempt + 1) url e) s2)))"

definition make_request ::
  "config \<Rightarrow> world \<Rightarrow> string \<Rightarrow> int option \<Rightarrow> state \<Rightarrow> response option \<times> state"
where
  "make_request cfg w url retries_arg s =
     (let r = (case retries_arg of None \<Rightarrow> retries (scraping cfg) | Some k \<Rightarrow> k)
      in attempt_loop cfg w url r [0..<nat (r + 1)] s)"

subsection \<open>\<open>_clean_html\<close> and \<open>_extract_content\<close>\<close>

definition clean_html :: "config \<Rightarrow> ('d, 'n) html_lib \<Rightarrow> 'd \<Rightarrow> 'd" where
  "clean_html cfg lib soup =
     foldl (\<lambda>d selector. foldl (\<lambda>d' element. decompose lib element d') d (select lib selector d))
       soup (remove_elements (scraping cfg))"

text \<open>\<open>soup.select_one\<close>: the first match, or \<open>None\<close>.\<close>

definition select_one :: "('d, 'n) html_lib \<Rightarrow> string \<Rightarrow> 'd \<Rightarrow> 'n option" where
  "select_one lib selector soup =
     (case select lib selector soup of [] \<Rightarrow> None | x # _ \<Rightarrow> Some x)"

text \<open>
  The loop over the content selectors. A \<open>Tag\<close> is always true as a condition, so
  \<open>if content\<close> tests that a match was found.
\<close>

fun extract_loop ::
  "('d, 'n) html_lib \<Rightarrow> 'd \<Rightarrow> string list \<Rightarrow> state \<Rightarrow> 'n option \<times> state"
where
  "extract_loop lib soup [] s = (None, logm WARNING MsgNoContentFound s)"
| "extract_loop lib soup (selector # rest) s =
     (case select_one lib selector soup of
        Some c \<Rightarrow> (Some c, logm DEBUG (MsgFoundContent selector) s)
      | None \<Rightarrow> extract_loop lib soup rest s)"

definition extract_content ::
  "config \<Rightarrow> ('d, 'n) html_lib \<Rightarrow> 'd \<Rightarrow> state \<Rightarrow> 'n option \<times> state"
where
  "extract_content cfg lib soup s = extract_loop lib soup (content_selectors (scraping cfg)) s"

subsection \<open>\<open>_convert_to_markdown\<close>\<close>

definition section_header :: "doc_section \<Rightarrow> string" where
  "section_header sec = ''# '' @ description sec @ [CHR 0x0A, CHR 0x0A]"

definition source_note :: "config \<Rightarrow> doc_section \<Rightarrow> string" where
  "source_note cfg sec =
     [CHR 0x0A, CHR 0x0A] @ ''---'' @ [CHR 0x0A, CHR 0x0A] @
     ''*Source: '' @ (base_url cfg @ url_suffix sec) @ ''*'' @ [CHR 0x0A]"

definition timestamp_note :: "datetime \<Rightarrow> string" where
  "timestamp_note dt = ''*Last updated: '' @ strftime dt @ ''*'' @ [CHR 0x0A]"

text \<open>
  The clock is read only when the time stamp is asked for, with \<open>datetime.now()\<close>.
  An exception of the converter leaves the function before anything else is done.
\<close>

definition convert_to_markdown ::
  "config \<Rightarrow> world \<Rightarrow> ('d, 'n) html_lib \<Rightarrow> string \<Rightarrow> doc_section \<Rightarrow> state \<Rightarrow>
     (exn + string) \<times> state"
where
  "convert_to_markdown cfg w lib html_content sec s =
     (case md lib html_content of
        None \<Rightarrow> (Inl ConversionError, s)
      | Some markdown \<Rightarrow>
          (let m1 = (if get_flag (add_section_headers (output_conf cfg))
                     then section_header sec @ markdown else markdown);
               m2 = (if get_flag (add_source_url (output_conf cfg))
                     then m1 @ source_note cfg sec else m1)
           in if get_flag (add_timestamp (output_conf cfg))
              then (Inr (m2 @ timestamp_note (now_local w (tick s))), emit EvNow s)
              else (Inr m2, s)))"

subsection \<open>Writing a file\<close>

text \<open>
  \<open>with open(path, 'w', encoding='utf-8') as f: f.write(text)\<close>. Opening for writing
  creates the file or truncates it; the text follows. Either step may raise.
\<close>

definition open_write ::
  "world \<Rightarrow> wkind \<Rightarrow> string \<Rightarrow> string \<Rightarrow> state \<Rightarrow> exn option \<times> state"
where
  "open_write w k p text s =
     (if open_fails w (tick s) p then (Some OSError, emit (EvOpen k p False) s)
      else
        (let s1 = (emit (EvOpen k p True) s)\<lparr>files := (files s)(p \<mapsto> [])\<rparr>
         in case write_fault w (tick s1) p of
              None \<Rightarrow>
                (None, (emit (EvWrite k p text True) s1)\<lparr>files := (files s1)(p \<mapsto> text)\<rparr>)
            | Some n \<Rightarrow>
                (Some OSError,
                 (emit (EvWrite k p text False) s1)\<lparr>files := (files s1)(p \<mapsto> take n text)\<rparr>)))"

subsection \<open>\<open>scrape_section\<close>\<close>

text \<open>
  The first part of \<open>scrape_section\<close>, up to the conversion: the rendered document,
  or \<open>None\<close> with the failure already counted.
\<close>

definition render_section ::
  "config \<Rightarrow> world \<Rightarrow> ('d, 'n) html_lib \<Rightarrow> doc_section \<Rightarrow> state \<Rightarrow> string option \<times> state"
where
  "render_section cfg w lib sec s =
     (let s1 = logm INFO (MsgScrapingSection (name sec)) s;
          url = base_url cfg @ url_suffix sec
      in case make_request cfg w url None s1 of
           (None, s2) \<Rightarrow> (None, bump_failed s2)
         | (Some resp, s2) \<Rightarrow>
             if \<not> response_ok resp then (None, bump_failed s2)
             else
               (let soup = clean_html cfg lib (parse lib (content resp))
                in case extract_content cfg lib soup s2 of
                     (None, s3) \<Rightarrow>
                       (None, bump_failed (logm ERROR (MsgNoContentExtracted (name sec)) s3))
                   | (Some c, s3) \<Rightarrow>
                       (case convert_to_markdown cfg w lib (to_str lib soup c) sec s3 of
                          (Inl e, s4) \<Rightarrow>
                            (None, bump_failed (logm ERROR (MsgConvertFailed (name sec) e) s4))
                        | (Inr markdown, s4) \<Rightarrow> (Some markdown, s4))))"

definition output_path :: "config \<Rightarrow> world \<Rightarrow> doc_section \<Rightarrow> string" where
  "output_path cfg w sec = joinpath w (docs_folder (output_conf cfg)) (filename sec)"

text \<open>The second part: the file is saved, and the outcome counted.\<close>

definition save_section ::
  "config \<Rightarrow> world \<Rightarrow> doc_section \<Rightarrow> string \<Rightarrow> state \<Rightarrow> bool \<times> state"
where
  "save_section cfg w sec markdown s =
     (let output_file = output_path cfg w sec
      in case open_write w SectionFile output_file markdown s of
           (None, s1) \<Rightarrow> (True, bump_successful (logm INFO (MsgSaved output_file) s1))
         | (Some e, s1) \<Rightarrow> (False, bump_failed (logm ERROR (MsgSaveFailed output_file e) s1)))"

definition scrape_section ::
  "config \<Rightarrow> world \<Rightarrow> ('d, 'n) html_lib \<Rightarrow> doc_section \<Rightarrow> state \<Rightarrow> bool \<times> state"
where
  "scrape_section cfg w lib sec s =
     (case render_section cfg w lib sec s of
        (None, s1) \<Rightarrow> (False, s1)
      | (Some markdown, s1) \<Rightarrow> save_section cfg w sec markdown s1)"

subsection \<open>\<open>create_index\<close>\<close>

definition join_lines :: "string list \<Rightarrow> string" where
  "join_lines ls = (case ls of [] \<Rightarrow> [] | l # rest \<Rightarrow> l @ concat (map (\<lambda>x. CHR 0x0A # x) rest))"

definition index_header :: "datetime \<Rightarrow> string list" where
  "index_header dt =
     [''# Claude Code Documentation Index'',
      '''',
      ''*Auto-generated documentation index*'',
      '''',
      ''Last updated: '' @ strftime dt,
      '''',
      ''## Available Documentation Sections'',
      '''']"

definition index_bullet :: "doc_section \<Rightarrow> string" where
  "index_bullet sec =
     ''- **['' @ name sec @ '']('' @ filename sec @ '')** - '' @ description sec"

definition index_footer :: "string list" where
  "index_footer =
     ['''',
      ''## Usage'',
      '''',
      ''This documentation is scraped automatically from the official Claude Code documentation.'',
      ''Use these files for offline reference or with Claude Code's `/DOC` command workflow.'',
      '''',
      ''---'',
      '''',
      ''*Generated by Claude Code Documentation Auto-Updater*'']"

text \<open>The list \<open>index_content\<close>: the loop appends one entry for each section.\<close>

definition index_content :: "config \<Rightarrow> datetime \<Rightarrow> string list" where
  "index_content cfg dt =
     foldl (\<lambda>acc sec. acc @ [index_bullet sec]) (index_header dt) (sections cfg) @ index_footer"

definition index_path :: "config \<Rightarrow> world \<Rightarrow> string" where
  "index_path cfg w = joinpath w (docs_folder (output_conf cfg)) (index_file (output_conf cfg))"

text \<open>No handler surrounds the write: an exception leaves \<open>create_index\<close>.\<close>

definition create_index :: "config \<Rightarrow> world \<Rightarrow> state \<Rightarrow> exn option \<times> state" where
  "create_index cfg w s =
     (let dt = now_local w (tick s);
          s1 = emit EvNow s;
          p = index_path cfg w
      in case open_write w IndexFile p (join_lines (index_content cfg dt)) s1 of
           (Some e, s2) \<Rightarrow> (Some e, s2)
         | (None, s2) \<Rightarrow> (None, logm INFO (MsgCreatedIndex p) s2))"

subsection \<open>\<open>_print_statistics\<close>\<close>

text \<open>
  The success rate is \<open>successful_scrapes / total_sections * 100\<close>; the division
  raises \<open>ZeroDivisionError\<close> when no section was selected, and the lines after it
  are not logged.
\<close>

definition print_statistics :: "world \<Rightarrow> state \<Rightarrow> exn option \<times> state" where
  "print_statistics w s =
     (let end_time = now_local w (tick s);
          s1 = emit EvNow s;
          s2 = logm INFO MsgStatsHeader s1;
          s3 = logm INFO (MsgTotal (total_sections (stats s))) s2;
          s4 = logm INFO (MsgSuccessful (successful_scrapes (stats s))) s3;
          s5 = logm INFO (MsgFailed (failed_scrapes (stats s))) s4
      in if total_sections (stats s) = 0 then (Some ZeroDivisionError, s5)
         else
           (let s6 = logm INFO
                       (MsgSuccessRate (successful_scrapes (stats s)) (total_sections (stats s))) s5;
                s7 = logm INFO (MsgDuration (start_time (stats s)) end_time) s6
            in (None, logm INFO MsgStatsFooter s7)))"

subsection \<open>\<open>scrape_all\<close>\<close>

text \<open>\<open>if section_filter\<close>: a filter was given and is not the empty string.\<close>

definition truthy :: "string option \<Rightarrow> bool" where
  "truthy section_filter = (case section_filter of None \<Rightarrow> False | Some f \<Rightarrow> f \<noteq> [])"

definition selected :: "config \<Rightarrow> string option \<Rightarrow> doc_section list" where
  "selected cfg section_filter =
     (case section_filter of
        None \<Rightarrow> sections cfg
      | Some f \<Rightarrow> if f \<noteq> [] then filter (\<lambda>x. name x = f) (sections cfg) else sections cfg)"

text \<open>
  \<open>for i, section in enumerate(sections, 1)\<close>, with the pause after every section but
  the last. The result of \<open>scrape_section\<close> is assigned and not used.
\<close>

fun scrape_loop ::
  "config \<Rightarrow> world \<Rightarrow> ('d, 'n) html_lib \<Rightarrow> doc_section list \<Rightarrow> nat \<Rightarrow> nat \<Rightarrow> state \<Rightarrow> state"
where
  "scrape_loop cfg w lib [] i n s = s"
| "scrape_loop cfg w lib (sec # rest) i n s =
     (let s1 = logm INFO (MsgProcessing i n (name sec)) s;
          s2 = snd (scrape_section cfg w lib sec s1);
          s3 = (if i < n then time_sleep (delay_between_requests (scraping cfg)) s2 else s2)
      in scrape_loop cfg w lib rest (i + 1) n s3)"

text \<open>The state when the loop of \<open>scrape_all\<close> has ended.\<close>

definition process :: "config \<Rightarrow> world \<Rightarrow> ('d, 'n) html_lib \<Rightarrow> doc_section list \<Rightarrow> state \<Rightarrow> state"
where
  "process cfg w lib secs s =
     (let s1 = s\<lparr>stats := (stats s)\<lparr>total_sections := length secs\<rparr>\<rparr>;
          s2 = logm INFO (MsgStarting (length secs)) s1
      in scrape_loop cfg w lib secs 1 (length secs) s2)"

definition scrape_all ::
  "config \<Rightarrow> world \<Rightarrow> ('d, 'n) html_lib \<Rightarrow> string option \<Rightarrow> state \<Rightarrow> exn option \<times> state"
where
  "scrape_all cfg w lib section_filter s =
     (let secs = selected cfg section_filter
      in if truthy section_filter \<and> secs = []
         then (None, logm ERROR (MsgSectionNotFound (the section_filter)) s)
         else
           (let s1 = process cfg w lib secs s
            in case (if \<not> truthy section_filter then create_index cfg w s1 else (None, s1)) of
                 (Some e, s2) \<Rightarrow> (Some e, s2)
               | (None, s2) \<Rightarrow> print_statistics w s2))"

subsection \<open>The constructor and \<open>main\<close>\<close>

record args =
  config_arg :: string
  section_arg :: "string option"
  verbose :: bool

text \<open>The state of a scraper that \<open>__init__\<close> has built: the counters are zero.\<close>

definition init_state :: "world \<Rightarrow> state" where
  "init_state w =
     \<lparr>stats = \<lparr>total_sections = 0, successful_scrapes = 0, failed_scrapes = 0,
               start_time = now_local w 0\<rparr>,
      files = initial_files w, trace = [EvNow], tick = 1\<rparr>"

text \<open>
  The exit status of the process, with the last state of the scraper when one was
  built. \<open>_load_config\<close> calls \<open>sys.exit(1)\<close> when the file is missing or is not
  YAML; any other exception reaches the handler of \<open>main\<close>, which calls
  \<open>sys.exit(1)\<close>; when \<open>scrape_all\<close> returns, \<open>main\<close> returns and the status is 0.
  The logging handlers and the messages printed by \<open>main\<close> are left out.
\<close>

definition main :: "world \<Rightarrow> ('d, 'n) html_lib \<Rightarrow> args \<Rightarrow> nat \<times> state option" where
  "main w lib a =
     (case config_files w (config_arg a) of
        FileNotFound \<Rightarrow> (1, None)
      | YAMLError \<Rightarrow> (1, None)
      | Loaded cfg \<Rightarrow>
          if mkdir_fails w (docs_folder (output_conf cfg)) then (1, None)
          else
            (case scrape_all cfg w lib (section_arg a) (init_state w) of
               (Some e, s) \<Rightarrow> (1, Some s)
             | (None, s) \<Rightarrow> (0, Some s)))"

subsection \<open>Reading the trace\<close>

fun is_log :: "event \<Rightarrow> bool" where
  "is_log (EvLog _ _) = True"
| "is_log _ = False"

text \<open>The interactions with the world in a trace: everything but the log records.\<close>

definition effects :: "event list \<Rightarrow> event list" where
  "effects tr = filter (\<lambda>e. \<not> is_log e) tr"

text \<open>
  What a fetch that fails \<open>k + 1\<close> times does to the world: \<open>k + 1\<close> requests, with
  a sleep between two consecutive ones and none after the last.
\<close>

fun failed_fetch_effects :: "string \<Rightarrow> nat \<Rightarrow> nat \<Rightarrow> event list" where
  "failed_fetch_effects url d 0 = [EvHttpGet url]"
| "failed_fetch_effects url d (Suc k) = EvHttpGet url # EvSleep d # failed_fetch_effects url d k"

text \<open>The request made at moment \<open>t\<close> fails: it raises, or the status is an error.\<close>

definition request_fails :: "world \<Rightarrow> nat \<Rightarrow> string \<Rightarrow> bool" where
  "request_fails w t url = (case try_get w t url of Inl _ \<Rightarrow> True | Inr _ \<Rightarrow> False)"

text \<open>The retry count that \<open>_make_request\<close> uses: its argument, or the configured one.\<close>

definition effective_retries :: "config \<Rightarrow> int option \<Rightarrow> int" where
  "effective_retries cfg retries_arg =
     (case retries_arg of None \<Rightarrow> retries (scraping cfg) | Some k \<Rightarrow> k)"

subsection \<open>A concrete configuration, world and library\<close>

text \<open>
  The scenario of the specification: one section, a page with a navigation bar and a
  main region, the selectors \<open>.missing\<close> and \<open>.real\<close>. The local clock of the example
  is two hours ahead of UTC.
\<close>

definition overview :: doc_section where
  "overview =
     \<lparr>name = ''overview'', url_suffix = ''/overview'', filename = ''overview.md'',
      description = ''Overview''\<rparr>"

definition example_config :: config where
  "example_config =
     \<lparr>base_url = ''https://docs.example/en'',
      scraping = \<lparr>user_agent = ''docs-scraper'', timeout = 30, retries = 2,
                  delay_between_requests = 1, remove_elements = [''nav''],
                  content_selectors = [''.missing'', ''.real'']\<rparr>,
      output_conf = \<lparr>docs_folder = ''docs'', index_file = ''README.md'',
                     add_section_headers = None, add_source_url = None,
                     add_timestamp = None\<rparr>,
      sections = [overview]\<rparr>"

definition noon :: datetime where
  "noon = \<lparr>year = 2024, month = 1, day = 5, hour = 12, minute = 0, second = 9\<rparr>"

definition example_page :: response where
  "example_page =
     \<lparr>status_code = 200, content = ''<nav>menu</nav><main class=real><h1>Hi</h1></main>''\<rparr>"

definition example_world :: world where
  "example_world =
     \<lparr>http_get = (\<lambda>t url. Responds example_page),
      now_local = (\<lambda>t. noon\<lparr>hour := 14\<rparr>),
      now_utc = (\<lambda>t. noon),
      open_fails = (\<lambda>t p. False),
      write_fault = (\<lambda>t p. None),
      joinpath = (\<lambda>d f. d @ ''/'' @ f),
      config_files = (\<lambda>p. if p = ''config.yaml'' then Loaded example_config else FileNotFound),
      mkdir_fails = (\<lambda>p. False),
      initial_files = Map.empty\<rparr>"

definition example_lib :: "(string, string) html_lib" where
  "example_lib =
     \<lparr>parse = (\<lambda>html. html),
      select = (\<lambda>selector soup.
         if selector = ''.real'' then [''<main class=real><h1>Hi</h1></main>'']
         else if selector = ''nav'' then [''<nav>menu</nav>''] else []),
      decompose = (\<lambda>element soup. soup),
      to_str = (\<lambda>soup element. element),
      md = (\<lambda>html. Some ''Hi'')\<rparr>"

subsection \<open>Extraction and counters, as the specification words them\<close>

text \<open>The first match of the first selector, in the list, that matches anything.\<close>

definition first_matching :: "('d, 'n) html_lib \<Rightarrow> 'd \<Rightarrow> string list \<Rightarrow> 'n option" where
  "first_matching lib soup selectors =
     map_option (\<lambda>selector. hd (select lib selector soup))
       (find (\<lambda>selector. select lib selector soup \<noteq> []) selectors)"

text \<open>The three counters of a state: total, successful, failed.\<close>

definition counters :: "state \<Rightarrow> nat \<times> nat \<times> nat" where
  "counters s =
     (total_sections (stats s), successful_scrapes (stats s), failed_scrapes (stats s))"

subsection \<open>More examples\<close>

text \<open>The command line of a full run and of a run for one section.\<close>

definition full_run :: args where
  "full_run = \<lparr>config_arg = ''config.yaml'', section_arg = None, verbose = False\<rparr>"

definition only :: "string \<Rightarrow> args" where
  "only f = \<lparr>config_arg = ''config.yaml'', section_arg = Some f, verbose = False\<rparr>"

text \<open>The example configuration without its section.\<close>

definition empty_config :: config where
  "empty_config = example_config\<lparr>sections := []\<rparr>"

text \<open>A second section, and the example configuration with both.\<close>

definition setup_section :: doc_section where
  "setup_section =
     \<lparr>name = ''setup'', url_suffix = ''/setup'', filename = ''setup.md'',
      description = ''Set up''\<rparr>"

definition two_sections_config :: config where
  "two_sections_config = example_config\<lparr>sections := [overview, setup_section]\<rparr>"

subsection \<open>Events of the index file\<close>

fun is_file_event :: "event \<Rightarrow> bool" where
  "is_file_event (EvOpen _ _ _) = True"
| "is_file_event (EvWrite _ _ _ _) = True"
| "is_file_event _ = False"

fun is_index_event :: "event \<Rightarrow> bool" where
  "is_index_event (EvOpen IndexFile _ _) = True"
| "is_index_event (EvWrite IndexFile _ _ _) = True"
| "is_index_event _ = False"

definition index_events :: "event list \<Rightarrow> event list" where
  "index_events tr = filter is_index_event tr"

text \<open>The index document in the words of the specification.\<close>

definition index_document :: "config \<Rightarrow> datetime \<Rightarrow> string" where
  "index_document cfg dt =
     join_lines (index_header dt @ map index_bullet (sections cfg) @ index_footer)"

subsection \<open>Worlds with a failing file system\<close>

text \<open>
  Two worlds where the file system refuses something: in the first the index file
  cannot be opened for writing; in the second every write stops after five
  characters, and the output file of the section exists beforehand.
\<close>

definition locked_index_world :: world where
  "locked_index_world = example_world\<lparr>open_fails := (\<lambda>t p. p = ''docs/README.md'')\<rparr>"

definition full_disk_world :: world where
  "full_disk_world =
     example_world\<lparr>write_fault := (\<lambda>t p. Some 5),
                   initial_files := [''docs/overview.md'' \<mapsto> ''old'']\<rparr>"

subsection \<open>Two runs\<close>

text \<open>
  Two worlds that answer every request and every file operation alike, and whose
  clocks may differ: the same upstream content and the same machine at two times.
\<close>

definition same_but_clock :: "world \<Rightarrow> world \<Rightarrow> bool" where
  "same_but_clock w1 w2 \<longleftrightarrow>
     http_get w1 = http_get w2 \<and> open_fails w1 = open_fails w2 \<and>
     write_fault w1 = write_fault w2 \<and> joinpath w1 = joinpath w2"

text \<open>The texts handed to \<open>f.write\<close> for the section files, with path and outcome.\<close>

fun section_write :: "event \<Rightarrow> (string \<times> string \<times> bool) list" where
  "section_write (EvWrite SectionFile p text ok) = [(p, text, ok)]"
| "section_write _ = []"

definition section_writes :: "event list \<Rightarrow> (string \<times> string \<times> bool) list" where
  "section_writes tr = concat (map section_write tr)"

text \<open>Two documents that are equal, or differ in the time stamp note at their end only.\<close>

definition same_but_stamp :: "string \<Rightarrow> string \<Rightarrow> bool" where
  "same_but_stamp d1 d2 \<longleftrightarrow>
     d1 = d2 \<or>
     (\<exists>body dt1 dt2. d1 = body @ timestamp_note dt1 \<and> d2 = body @ timestamp_note dt2)"

definition same_write :: "string \<times> string \<times> bool \<Rightarrow> string \<times> string \<times> bool \<Rightarrow> bool" where
  "same_write a b \<longleftrightarrow>
     fst a = fst b \<and> snd (snd a) = snd (snd b) \<and> same_but_stamp (fst (snd a)) (fst (snd b))"

text \<open>The example world one day and some minutes later.\<close>

definition later_world :: world where
  "later_world =
     example_world\<lparr>now_local := (\<lambda>t. noon\<lparr>day := 6, hour := 9, minute := 41\<rparr>)\<rparr>"

section \<open>Properties\<close>

subsection \<open>The state after the basic steps\<close>

lemma effects_append [simp]: "effects (xs @ ys) = effects xs @ effects ys"
  by (simp add: effects_def)

lemma trace_logm [simp]: "trace (logm l m s) = trace s @ [EvLog l m]"
  by (simp add: logm_def)

lemma tick_logm [simp]: "tick (logm l m s) = tick s"
  by (simp add: logm_def)

lemma trace_emit [simp]: "trace (emit e s) = trace s @ [e]"
  by (simp add: emit_def)

lemma tick_emit [simp]: "tick (emit e s) = Suc (tick s)"
  by (simp add: emit_def)

lemma request_failsD: "request_fails w t url \<Longrightarrow> \<exists>e. try_get w t url = Inl e"
  by (cases "try_get w t url") (simp_all add: request_fails_def)

lemma attempt_loop_all_fail:
  assumes fails: "\<forall>t. request_fails w t url"
  shows "a \<le> k \<Longrightarrow>
     fst (attempt_loop cfg w url (int k) [a..<Suc k] s) = None \<and>
     (\<exists>new. trace (snd (attempt_loop cfg w url (int k) [a..<Suc k] s)) = trace s @ new \<and>
        effects new = failed_fetch_effects url (delay_between_requests (scraping cfg)) (k - a))"
proof (induction "k - a" arbitrary: a s)
  case 0
  then have ak: "a = k" by simp
  from fails obtain e where e: "try_get w (tick s) url = Inl e"
    using request_failsD by blast
  have one: "[a..<Suc k] = [a]" using ak by (simp add: upt_rec)
  show ?case using ak e unfolding one
    by (simp add: Let_def effects_def)
next
  case (Suc d)
  then have lt: "a < k" and d: "d = k - Suc a" by simp_all
  from fails obtain e where e: "try_get w (tick s) url = Inl e"
    using request_failsD by blast
  have step: "[a..<Suc k] = a # [Suc a..<Suc k]" using lt by (simp add: upt_rec)
  let ?s' = "time_sleep (delay_between_requests (scraping cfg))
               (logm WARNING (MsgAttemptFailed (a + 1) url e)
                  (emit (EvHttpGet url) (logm DEBUG (MsgRequesting url (a + 1) (int k + 1)) s)))"
  from Suc.hyps(1) [OF d, of ?s'] lt
  obtain new where fstn: "fst (attempt_loop cfg w url (int k) [Suc a..<Suc k] ?s') = None"
    and tr: "trace (snd (attempt_loop cfg w url (int k) [Suc a..<Suc k] ?s')) = trace ?s' @ new"
    and ef: "effects new = failed_fetch_effects url (delay_between_requests (scraping cfg)) (k - Suc a)"
    by auto
  have ka: "k - a = Suc (k - Suc a)" using lt by simp
  have unroll: "attempt_loop cfg w url (int k) [a..<Suc k] s =
      attempt_loop cfg w url (int k) [Suc a..<Suc k] ?s'"
    unfolding step using lt e by (simp add: Let_def del: upt_Suc)
  have "trace ?s' = trace s @ [EvLog DEBUG (MsgRequesting url (a + 1) (int k + 1)), EvHttpGet url,
      EvLog WARNING (MsgAttemptFailed (a + 1) url e),
      EvSleep (delay_between_requests (scraping cfg))]"
    by (simp add: time_sleep_def)
  with tr have "trace (snd (attempt_loop cfg w url (int k) [a..<Suc k] s)) =
      trace s @ ([EvLog DEBUG (MsgRequesting url (a + 1) (int k + 1)), EvHttpGet url,
      EvLog WARNING (MsgAttemptFailed (a + 1) url e),
      EvSleep (delay_between_requests (scraping cfg))] @ new)"
    unfolding unroll by simp
  moreover have "effects ([EvLog DEBUG (MsgRequesting url (a + 1) (int k + 1)), EvHttpGet url,
      EvLog WARNING (MsgAttemptFailed (a + 1) url e),
      EvSleep (delay_between_requests (scraping cfg))] @ new) =
      failed_fetch_effects url (delay_between_requests (scraping cfg)) (k - a)"
    unfolding ka using ef by (simp add: effects_def)
  ultimately show ?case using fstn unfolding unroll by blast
qed


lemma count_list_effects: "\<not> is_log e \<Longrightarrow> count_list (effects xs) e = count_list xs e"
  by (induction xs) (auto simp: effects_def)

lemma count_get_failed_fetch:
  "count_list (failed_fetch_effects url d k) (EvHttpGet url) = k + 1"
  by (induction k) simp_all

lemma count_sleep_failed_fetch:
  "count_list (failed_fetch_effects url d k) (EvSleep d) = k"
  by (induction k) simp_all

lemma failed_fetch_effects_nonempty: "failed_fetch_effects url d k \<noteq> []"
  by (cases k) simp_all

lemma last_failed_fetch: "last (failed_fetch_effects url d k) = EvHttpGet url"
  by (induction k) (simp_all add: failed_fetch_effects_nonempty)

text \<open>
  C3. For every URL and every retry count \<open>r \<ge> 0\<close>, a fetch whose request fails on
  every attempt returns \<open>None\<close> (it does not raise), after exactly \<open>r + 1\<close> requests
  with a sleep of the configured delay between two consecutive requests and no sleep
  after the last one.
\<close>

theorem make_request_always_failing:
  assumes r: "0 \<le> effective_retries cfg retries_arg"
    and fails: "\<forall>t. request_fails w t url"
  shows "fst (make_request cfg w url retries_arg s) = None \<and>
    (\<exists>new. trace (snd (make_request cfg w url retries_arg s)) = trace s @ new \<and>
       effects new =
         failed_fetch_effects url (delay_between_requests (scraping cfg))
           (nat (effective_retries cfg retries_arg)) \<and>
       count_list new (EvHttpGet url) = nat (effective_retries cfg retries_arg + 1) \<and>
       count_list new (EvSleep (delay_between_requests (scraping cfg))) =
         nat (effective_retries cfg retries_arg) \<and>
       last (effects new) = EvHttpGet url)"
proof -
  define k where "k = nat (effective_retries cfg retries_arg)"
  have rk: "effective_retries cfg retries_arg = int k" using r by (simp add: k_def)
  have mk: "make_request cfg w url retries_arg s = attempt_loop cfg w url (int k) [0..<Suc k] s"
    using rk by (simp add: make_request_def effective_retries_def Let_def nat_add_distrib del: upt_Suc)
  from attempt_loop_all_fail [OF fails, of 0 k cfg s]
  obtain new where n: "fst (attempt_loop cfg w url (int k) [0..<Suc k] s) = None"
    and tr: "trace (snd (attempt_loop cfg w url (int k) [0..<Suc k] s)) = trace s @ new"
    and ef: "effects new = failed_fetch_effects url (delay_between_requests (scraping cfg)) k"
    by auto
  have c1: "count_list new (EvHttpGet url) = k + 1"
    using count_list_effects [of "EvHttpGet url" new] ef count_get_failed_fetch by simp
  have c2: "count_list new (EvSleep (delay_between_requests (scraping cfg))) = k"
    using count_list_effects [of "EvSleep (delay_between_requests (scraping cfg))" new] ef
      count_sleep_failed_fetch by simp
  have c3: "last (effects new) = EvHttpGet url" using ef last_failed_fetch by simp
  have k1: "nat (effective_retries cfg retries_arg + 1) = k + 1" using rk by simp
  show ?thesis unfolding mk k1 using n tr ef c1 c2 c3 unfolding k_def [symmetric] by blast
qed

theorem make_request_always_failing_witness:
  "0 \<le> effective_retries example_config None \<and>
   (\<forall>t. request_fails (example_world\<lparr>http_get := (\<lambda>t url. Raises)\<rparr>) t ''u'') \<and>
   fst (make_request example_config (example_world\<lparr>http_get := (\<lambda>t url. Raises)\<rparr>) ''u'' None
          (init_state example_world)) = None \<and>
   count_list (drop 1 (trace (snd (make_request example_config
       (example_world\<lparr>http_get := (\<lambda>t url. Raises)\<rparr>) ''u'' None (init_state example_world)))))
     (EvHttpGet ''u'') = 3"
proof -
  have r: "0 \<le> effective_retries example_config None"
    by (simp add: effective_retries_def example_config_def)
  have f: "\<forall>t. request_fails (example_world\<lparr>http_get := (\<lambda>t url. Raises)\<rparr>) t ''u''"
    by (simp add: request_fails_def try_get_def)
  have e: "nat (effective_retries example_config None + 1) = 3"
    by (simp add: effective_retries_def example_config_def)
  from make_request_always_failing [OF r f, of "init_state example_world"] r f e
  show ?thesis by (auto simp: init_state_def)
qed

lemma stats_logm [simp]: "stats (logm l m s) = stats s"
  by (simp add: logm_def)

lemma files_logm [simp]: "files (logm l m s) = files s"
  by (simp add: logm_def)

lemma stats_emit [simp]: "stats (emit e s) = stats s"
  by (simp add: emit_def)

lemma files_emit [simp]: "files (emit e s) = files s"
  by (simp add: emit_def)

lemma stats_time_sleep [simp]: "stats (time_sleep d s) = stats s"
  by (simp add: time_sleep_def)

lemma files_time_sleep [simp]: "files (time_sleep d s) = files s"
  by (simp add: time_sleep_def)

lemma files_bump_failed [simp]: "files (bump_failed s) = files s"
  by (simp add: bump_failed_def)

lemma files_bump_successful [simp]: "files (bump_successful s) = files s"
  by (simp add: bump_successful_def)

lemma fst_extract_loop:
  "fst (extract_loop lib soup selectors s) = first_matching lib soup selectors"
  by (induction selectors)
    (auto simp: first_matching_def select_one_def split: list.splits)

lemma first_matching_None:
  "first_matching lib soup selectors = None \<longleftrightarrow>
     (\<forall>selector \<in> set selectors. select lib selector soup = [])"
  by (auto simp: first_matching_def find_None_iff)

lemma first_matching_split:
  assumes "\<forall>p \<in> set pre. select lib p soup = []" and "select lib selector soup = x # xs"
  shows "first_matching lib soup (pre @ selector # post) = Some x"
  using assms by (induction pre) (simp_all add: first_matching_def)

text \<open>
  C4. Extraction returns the first match of the first content selector that matches
  an element, and \<open>None\<close> exactly when no content selector matches; a selector
  without a match in front of a matching one does not make the extraction fail.
\<close>

theorem extract_content_first_match:
  "fst (extract_content cfg lib soup s) =
     first_matching lib soup (content_selectors (scraping cfg)) \<and>
   (fst (extract_content cfg lib soup s) = None \<longleftrightarrow>
     (\<forall>selector \<in> set (content_selectors (scraping cfg)). select lib selector soup = [])) \<and>
   (\<forall>pre selector post x xs.
      content_selectors (scraping cfg) = pre @ selector # post \<and>
      (\<forall>p \<in> set pre. select lib p soup = []) \<and> select lib selector soup = x # xs \<longrightarrow>
      fst (extract_content cfg lib soup s) = Some x)"
  unfolding extract_content_def fst_extract_loop
  using first_matching_None [of lib soup] first_matching_split [of _ lib soup]
  by auto

theorem extract_content_first_match_witness:
  "content_selectors (scraping example_config) = [''.missing''] @ ''.real'' # [] \<and>
   select example_lib ''.missing'' (content example_page) = [] \<and>
   select example_lib ''.real'' (content example_page) = [''<main class=real><h1>Hi</h1></main>''] \<and>
   fst (extract_content example_config example_lib (content example_page)
          (init_state example_world)) = Some ''<main class=real><h1>Hi</h1></main>''"
proof -
  have a: "content_selectors (scraping example_config) = [''.missing''] @ ''.real'' # []"
    by (simp add: example_config_def)
  have b: "\<forall>p \<in> set [''.missing'']. select example_lib p (content example_page) = []"
    by (simp add: example_lib_def)
  have c: "select example_lib ''.real'' (content example_page) =
      ''<main class=real><h1>Hi</h1></main>'' # []"
    by (simp add: example_lib_def)
  have d: "select example_lib ''.missing'' (content example_page) = []"
    by (simp add: example_lib_def)
  from extract_content_first_match
    [of example_config example_lib "content example_page" "init_state example_world"] a b c d
  show ?thesis by blast
qed

lemma stats_attempt_loop [simp]: "stats (snd (attempt_loop cfg w url r as s)) = stats s"
  by (induction as arbitrary: s) (auto simp: Let_def split: sum.splits)

lemma stats_make_request [simp]: "stats (snd (make_request cfg w url ra s)) = stats s"
  by (simp add: make_request_def Let_def)

lemma stats_extract_loop [simp]: "stats (snd (extract_loop lib soup sels s)) = stats s"
  by (induction sels) (auto split: option.splits)

lemma stats_extract_content [simp]: "stats (snd (extract_content cfg lib soup s)) = stats s"
  by (simp add: extract_content_def)

lemma stats_convert [simp]:
  "stats (snd (convert_to_markdown cfg w lib html sec s)) = stats s"
  by (simp add: convert_to_markdown_def Let_def split: option.splits)

lemma stats_open_write [simp]: "stats (snd (open_write w k p text s)) = stats s"
  by (simp add: open_write_def Let_def split: option.splits)

lemma stats_bump_failed [simp]:
  "stats (bump_failed s) = (stats s)\<lparr>failed_scrapes := failed_scrapes (stats s) + 1\<rparr>"
  by (simp add: bump_failed_def)

lemma stats_bump_successful [simp]:
  "stats (bump_successful s) =
     (stats s)\<lparr>successful_scrapes := successful_scrapes (stats s) + 1\<rparr>"
  by (simp add: bump_successful_def)

lemma counters_bump_failed [simp]:
  "counters (bump_failed s) =
     (total_sections (stats s), successful_scrapes (stats s), Suc (failed_scrapes (stats s)))"
  by (simp add: counters_def bump_failed_def)

lemma counters_bump_successful [simp]:
  "counters (bump_successful s) =
     (total_sections (stats s), Suc (successful_scrapes (stats s)), failed_scrapes (stats s))"
  by (simp add: counters_def bump_successful_def)

lemma render_section_counters:
  "counters (snd (render_section cfg w lib sec s)) =
     (case fst (render_section cfg w lib sec s) of
        Some markdown \<Rightarrow> counters s
      | None \<Rightarrow>
          (total_sections (stats s), successful_scrapes (stats s), Suc (failed_scrapes (stats s))))"
proof -
  obtain r s2 where mr: "make_request cfg w (base_url cfg @ url_suffix sec) None
      (logm INFO (MsgScrapingSection (name sec)) s) = (r, s2)"
    by (cases "make_request cfg w (base_url cfg @ url_suffix sec) None
      (logm INFO (MsgScrapingSection (name sec)) s)")
  have s2: "stats s2 = stats s"
    using stats_make_request [of cfg w "base_url cfg @ url_suffix sec" None
        "logm INFO (MsgScrapingSection (name sec)) s"] mr by simp
  show ?thesis
  proof (cases r)
    case None
    then show ?thesis using mr s2 by (simp add: render_section_def Let_def)
  next
    case (Some resp)
    show ?thesis
    proof (cases "response_ok resp")
      case False
      then show ?thesis using mr s2 Some by (simp add: render_section_def Let_def)
    next
      case True
      let ?soup = "clean_html cfg lib (parse lib (content resp))"
      obtain c s3 where ex: "extract_content cfg lib ?soup s2 = (c, s3)"
        by (cases "extract_content cfg lib ?soup s2")
      have s3: "stats s3 = stats s"
        using stats_extract_content [of cfg lib ?soup s2] ex s2 by simp
      show ?thesis
      proof (cases c)
        case None
        then show ?thesis using mr Some True ex s3 by (simp add: render_section_def Let_def)
      next
        case (Some el)
        obtain m s4 where cv:
          "convert_to_markdown cfg w lib (to_str lib ?soup el) sec s3 = (m, s4)"
          by (cases "convert_to_markdown cfg w lib (to_str lib ?soup el) sec s3")
        have s4: "stats s4 = stats s"
          using stats_convert [of cfg w lib "to_str lib ?soup el" sec s3] cv s3 by simp
        show ?thesis using mr \<open>r = Some resp\<close> True ex Some cv s4
          by (cases m) (simp_all add: render_section_def Let_def counters_def)
      qed
    qed
  qed
qed

lemma save_section_counters:
  "counters (snd (save_section cfg w sec markdown s)) =
     (if fst (save_section cfg w sec markdown s)
      then (total_sections (stats s), Suc (successful_scrapes (stats s)), failed_scrapes (stats s))
      else (total_sections (stats s), successful_scrapes (stats s), Suc (failed_scrapes (stats s))))"
proof -
  obtain e s1 where ow:
    "open_write w SectionFile (output_path cfg w sec) markdown s = (e, s1)"
    by (cases "open_write w SectionFile (output_path cfg w sec) markdown s")
  have "stats s1 = stats s"
    using stats_open_write [of w SectionFile "output_path cfg w sec" markdown s] ow by simp
  then show ?thesis using ow by (cases e) (simp_all add: save_section_def Let_def)
qed

lemma scrape_section_counters:
  "counters (snd (scrape_section cfg w lib sec s)) =
     (if fst (scrape_section cfg w lib sec s)
      then (total_sections (stats s), Suc (successful_scrapes (stats s)), failed_scrapes (stats s))
      else (total_sections (stats s), successful_scrapes (stats s), Suc (failed_scrapes (stats s))))"
proof -
  obtain r s1 where rs: "render_section cfg w lib sec s = (r, s1)"
    by (cases "render_section cfg w lib sec s")
  show ?thesis
  proof (cases r)
    case None
    then show ?thesis using rs render_section_counters [of cfg w lib sec s]
      by (simp add: scrape_section_def)
  next
    case (Some markdown)
    then have "counters s1 = counters s"
      using rs render_section_counters [of cfg w lib sec s] by simp
    then have "stats s1 = stats s \<or> counters s1 = counters s" by simp
    then show ?thesis using rs Some save_section_counters [of cfg w sec markdown s1]
      \<open>counters s1 = counters s\<close>
      by (simp add: scrape_section_def counters_def)
  qed
qed

lemma scrape_loop_counters:
  "counters s = (t, a, b) \<Longrightarrow>
   \<exists>a' b'. counters (scrape_loop cfg w lib secs i n s) = (t, a', b') \<and>
     a' + b' = a + b + length secs"
proof (induction secs arbitrary: s i a b)
  case Nil
  then show ?case by simp
next
  case (Cons sec rest)
  let ?s1 = "logm INFO (MsgProcessing i n (name sec)) s"
  let ?s2 = "snd (scrape_section cfg w lib sec ?s1)"
  let ?s3 = "if i < n then time_sleep (delay_between_requests (scraping cfg)) ?s2 else ?s2"
  have c1: "counters ?s1 = (t, a, b)" using Cons.prems by (simp add: counters_def)
  have "\<exists>a2 b2. counters ?s2 = (t, a2, b2) \<and> a2 + b2 = a + b + 1"
    using scrape_section_counters [of cfg w lib sec ?s1] c1 by (auto simp: counters_def)
  then obtain a2 b2 where c2: "counters ?s2 = (t, a2, b2)" and sum2: "a2 + b2 = a + b + 1"
    by blast
  have c3: "counters ?s3 = (t, a2, b2)" using c2 by (simp add: counters_def)
  from Cons.IH [OF c3, of "i + 1"]
  obtain a' b' where "counters (scrape_loop cfg w lib rest (i + 1) n ?s3) = (t, a', b')"
    and "a' + b' = a2 + b2 + length rest" by blast
  then show ?case using sum2 by (simp add: Let_def)
qed

lemma process_counters:
  assumes "successful_scrapes (stats s) = 0" and "failed_scrapes (stats s) = 0"
  shows "\<exists>a b. counters (process cfg w lib secs s) = (length secs, a, b) \<and> a + b = length secs"
proof -
  let ?s2 = "logm INFO (MsgStarting (length secs))
               (s\<lparr>stats := (stats s)\<lparr>total_sections := length secs\<rparr>\<rparr>)"
  have "counters ?s2 = (length secs, 0, 0)" using assms by (simp add: counters_def)
  from scrape_loop_counters [OF this, of cfg w lib secs 1 "length secs"]
  show ?thesis by (simp add: process_def Let_def)
qed

lemma counters_create_index [simp]: "counters (snd (create_index cfg w s)) = counters s"
proof -
  obtain e s2 where ow: "open_write w IndexFile (index_path cfg w)
      (join_lines (index_content cfg (now_local w (tick s)))) (emit EvNow s) = (e, s2)"
    by (cases "open_write w IndexFile (index_path cfg w)
      (join_lines (index_content cfg (now_local w (tick s)))) (emit EvNow s)")
  have "stats s2 = stats s"
    using stats_open_write [of w IndexFile "index_path cfg w"
        "join_lines (index_content cfg (now_local w (tick s)))" "emit EvNow s"] ow by simp
  then show ?thesis using ow by (cases e) (simp_all add: create_index_def Let_def counters_def)
qed

lemma counters_print_statistics [simp]: "counters (snd (print_statistics w s)) = counters s"
  by (simp add: print_statistics_def Let_def counters_def)

lemma scrape_all_counters:
  assumes "counters s = (0, 0, 0)"
  shows "\<exists>a b. counters (snd (scrape_all cfg w lib flt s)) = (length (selected cfg flt), a, b) \<and>
     a + b = length (selected cfg flt)"
proof (cases "truthy flt \<and> selected cfg flt = []")
  case True
  then show ?thesis using assms by (simp add: scrape_all_def Let_def counters_def)
next
  case False
  have z: "successful_scrapes (stats s) = 0" "failed_scrapes (stats s) = 0"
    using assms by (simp_all add: counters_def)
  let ?s1 = "process cfg w lib (selected cfg flt) s"
  from process_counters [OF z, of cfg w lib "selected cfg flt"]
  obtain a b where p: "counters ?s1 = (length (selected cfg flt), a, b)"
    and ab: "a + b = length (selected cfg flt)" by blast
  let ?ix = "if \<not> truthy flt then create_index cfg w ?s1 else (None, ?s1)"
  have ix: "counters (snd ?ix) = counters ?s1" by simp
  have "counters (snd (scrape_all cfg w lib flt s)) = counters (snd ?ix)"
  proof (cases "fst ?ix")
    case None
    then have "scrape_all cfg w lib flt s = print_statistics w (snd ?ix)"
      using False by (cases ?ix) (auto simp: scrape_all_def Let_def)
    then show ?thesis by simp
  next
    case (Some e)
    then have "scrape_all cfg w lib flt s = (Some e, snd ?ix)"
      using False by (cases ?ix) (auto simp: scrape_all_def Let_def)
    then show ?thesis by simp
  qed
  then show ?thesis using ix p ab by simp
qed

text \<open>
  C1. When the loop of \<open>scrape_all\<close> has ended, and when \<open>scrape_all\<close> has ended,
  \<open>total_sections\<close> is the number of selected sections and equals the sum of
  \<open>successful_scrapes\<close> and \<open>failed_scrapes\<close>; each call of \<open>scrape_section\<close> adds one
  to exactly one of the two counters, the one that its result names.
\<close>

theorem counters_balance:
  assumes "counters s = (0, 0, 0)"
  shows "(let s' = process cfg w lib (selected cfg section_filter) s
          in total_sections (stats s') = length (selected cfg section_filter) \<and>
             successful_scrapes (stats s') + failed_scrapes (stats s') = total_sections (stats s')) \<and>
         (let s' = snd (scrape_all cfg w lib section_filter s)
          in total_sections (stats s') = length (selected cfg section_filter) \<and>
             successful_scrapes (stats s') + failed_scrapes (stats s') = total_sections (stats s')) \<and>
         (\<forall>sec s0. counters (snd (scrape_section cfg w lib sec s0)) =
            (if fst (scrape_section cfg w lib sec s0)
             then (total_sections (stats s0), Suc (successful_scrapes (stats s0)),
                   failed_scrapes (stats s0))
             else (total_sections (stats s0), successful_scrapes (stats s0),
                   Suc (failed_scrapes (stats s0)))))"
proof -
  have z: "successful_scrapes (stats s) = 0" "failed_scrapes (stats s) = 0"
    using assms by (simp_all add: counters_def)
  from process_counters [OF z, of cfg w lib "selected cfg section_filter"]
  have a: "let s' = process cfg w lib (selected cfg section_filter) s
          in total_sections (stats s') = length (selected cfg section_filter) \<and>
             successful_scrapes (stats s') + failed_scrapes (stats s') = total_sections (stats s')"
    by (auto simp: counters_def Let_def)
  from scrape_all_counters [OF assms, of cfg w lib section_filter]
  have b: "let s' = snd (scrape_all cfg w lib section_filter s)
          in total_sections (stats s') = length (selected cfg section_filter) \<and>
             successful_scrapes (stats s') + failed_scrapes (stats s') = total_sections (stats s')"
    by (auto simp: counters_def Let_def)
  show ?thesis using a b scrape_section_counters by blast
qed

theorem counters_balance_witness:
  "counters (init_state example_world) = (0, 0, 0) \<and>
   total_sections (stats (snd (scrape_all example_config example_world example_lib None
     (init_state example_world)))) = 1 \<and>
   successful_scrapes (stats (snd (scrape_all example_config example_world example_lib None
     (init_state example_world)))) +
   failed_scrapes (stats (snd (scrape_all example_config example_world example_lib None
     (init_state example_world)))) = 1"
proof -
  have z: "counters (init_state example_world) = (0, 0, 0)"
    by (simp add: counters_def init_state_def)
  have l: "length (selected example_config None) = 1"
    by (simp add: selected_def example_config_def)
  from counters_balance [OF z, of example_config example_world example_lib None] z l
  show ?thesis by (simp add: Let_def)
qed

lemma total_scrape_loop [simp]:
  "total_sections (stats (scrape_loop cfg w lib secs i n s)) = total_sections (stats s)"
  using scrape_loop_counters [of s "total_sections (stats s)" "successful_scrapes (stats s)"
      "failed_scrapes (stats s)" cfg w lib secs i n]
  by (auto simp: counters_def)

lemma total_process [simp]: "total_sections (stats (process cfg w lib secs s)) = length secs"
  by (simp add: process_def Let_def)

lemma total_create_index [simp]:
  "total_sections (stats (snd (create_index cfg w s))) = total_sections (stats s)"
  using counters_create_index [of cfg w s] by (simp add: counters_def)

lemma fst_print_statistics:
  "fst (print_statistics w s) =
     (if total_sections (stats s) = 0 then Some ZeroDivisionError else None)"
  by (simp add: print_statistics_def Let_def)

lemma selected_falsy: "\<not> truthy flt \<Longrightarrow> selected cfg flt = sections cfg"
  by (cases flt) (simp_all add: truthy_def selected_def)

lemma selected_truthy:
  "truthy flt \<Longrightarrow> selected cfg flt = filter (\<lambda>x. name x = the flt) (sections cfg)"
  by (cases flt) (simp_all add: truthy_def selected_def)

text \<open>When \<open>scrape_all\<close> raises, and what.\<close>

lemma scrape_all_outcome:
  "fst (scrape_all cfg w lib flt s) =
     (if truthy flt then None
      else (case fst (create_index cfg w (process cfg w lib (sections cfg) s)) of
              Some e \<Rightarrow> Some e
            | None \<Rightarrow> if sections cfg = [] then Some ZeroDivisionError else None))"
proof (cases "truthy flt")
  case True
  then show ?thesis by (simp add: scrape_all_def Let_def fst_print_statistics)
next
  case False
  let ?s1 = "process cfg w lib (sections cfg) s"
  obtain e s2 where ci: "create_index cfg w ?s1 = (e, s2)" by (cases "create_index cfg w ?s1")
  have "total_sections (stats s2) = length (sections cfg)"
    using total_create_index [of cfg w ?s1] ci by simp
  then show ?thesis using False ci
    by (cases e) (simp_all add: scrape_all_def Let_def selected_falsy fst_print_statistics)
qed

lemma print_statistics_zero:
  "total_sections (stats s) = 0 \<Longrightarrow>
   print_statistics w s =
     (Some ZeroDivisionError,
      s\<lparr>trace := trace s @
           [EvNow, EvLog INFO MsgStatsHeader, EvLog INFO (MsgTotal 0),
            EvLog INFO (MsgSuccessful (successful_scrapes (stats s))),
            EvLog INFO (MsgFailed (failed_scrapes (stats s)))],
        tick := Suc (tick s)\<rparr>)"
  by (simp add: print_statistics_def Let_def logm_def emit_def)

text \<open>
  C10. In a run without a section filter over a configuration with no sections,
  \<open>total_sections\<close> is 0 when the statistics are printed: the division of the
  success rate raises \<open>ZeroDivisionError\<close> after the heading and the three counts
  have been logged, the rate, the duration and the closing line are never logged, and
  \<open>main\<close> exits with status 1.
\<close>

theorem statistics_division_by_zero:
  assumes "sections cfg = []" and "\<not> truthy section_filter"
    and "fst (create_index cfg w (process cfg w lib [] s)) = None"
  shows "scrape_all cfg w lib section_filter s =
           print_statistics w (snd (create_index cfg w (process cfg w lib [] s))) \<and>
         total_sections (stats (snd (create_index cfg w (process cfg w lib [] s)))) = 0 \<and>
         fst (scrape_all cfg w lib section_filter s) = Some ZeroDivisionError \<and>
         (\<exists>n m. trace (snd (scrape_all cfg w lib section_filter s)) =
            trace (snd (create_index cfg w (process cfg w lib [] s))) @
            [EvNow, EvLog INFO MsgStatsHeader, EvLog INFO (MsgTotal 0),
             EvLog INFO (MsgSuccessful n), EvLog INFO (MsgFailed m)]) \<and>
         (config_files w (config_arg a) = Loaded cfg \<and> section_arg a = section_filter \<and>
          s = init_state w \<and> \<not> mkdir_fails w (docs_folder (output_conf cfg)) \<longrightarrow>
            fst (main w lib a) = 1)"
proof -
  let ?ci = "create_index cfg w (process cfg w lib [] s)"
  have sel: "selected cfg section_filter = []"
    using assms(1,2) by (simp add: selected_falsy)
  obtain e s2 where ci: "?ci = (e, s2)" by (cases ?ci)
  then have e: "e = None" using assms(3) by simp
  have eq: "scrape_all cfg w lib section_filter s = print_statistics w (snd ?ci)"
    using assms(2) sel ci e by (simp add: scrape_all_def Let_def)
  have tot: "total_sections (stats (snd ?ci)) = 0" by simp
  have out: "fst (scrape_all cfg w lib section_filter s) = Some ZeroDivisionError"
    unfolding eq using tot by (simp add: fst_print_statistics)
  have tr: "\<exists>n m. trace (snd (scrape_all cfg w lib section_filter s)) =
            trace (snd ?ci) @
            [EvNow, EvLog INFO MsgStatsHeader, EvLog INFO (MsgTotal 0),
             EvLog INFO (MsgSuccessful n), EvLog INFO (MsgFailed m)]"
    unfolding eq print_statistics_zero [OF tot] by simp
  have "fst (main w lib a) = 1"
    if "config_files w (config_arg a) = Loaded cfg" "section_arg a = section_filter"
      "s = init_state w" "\<not> mkdir_fails w (docs_folder (output_conf cfg))"
  proof -
    obtain x s' where sa: "scrape_all cfg w lib section_filter s = (x, s')"
      by (cases "scrape_all cfg w lib section_filter s")
    with out have "x = Some ZeroDivisionError" by simp
    then show ?thesis using that sa by (simp add: main_def)
  qed
  then show ?thesis using eq tot out tr by blast
qed

theorem statistics_division_by_zero_witness:
  "sections empty_config = [] \<and> \<not> truthy None \<and>
   fst (create_index empty_config example_world
          (process empty_config example_world example_lib [] (init_state example_world))) = None \<and>
   fst (scrape_all empty_config example_world example_lib None (init_state example_world)) =
     Some ZeroDivisionError"
proof -
  have a: "sections empty_config = []" by (simp add: empty_config_def)
  have b: "\<not> truthy None" by (simp add: truthy_def)
  have c: "fst (create_index empty_config example_world
          (process empty_config example_world example_lib [] (init_state example_world))) = None"
    by (simp add: create_index_def open_write_def example_world_def Let_def process_def)
  from statistics_division_by_zero [OF a b c] a b c show ?thesis by blast
qed




subsection \<open>What the steps leave unchanged\<close>

lemma attempt_loop_frame:
  assumes "\<And>l m s. P (logm l m s) = P s" and "\<And>e s. \<not> is_file_event e \<Longrightarrow> P (emit e s) = P s"
  shows "P (snd (attempt_loop cfg w url r as s)) = P s"
  by (induction as arbitrary: s) (auto simp: Let_def time_sleep_def assms split: sum.splits)

lemma extract_loop_frame:
  assumes "\<And>l m s. P (logm l m s) = P s"
  shows "P (snd (extract_loop lib soup sels s)) = P s"
  by (induction sels) (auto simp: assms split: option.splits)

lemma convert_frame:
  assumes "\<And>e s. \<not> is_file_event e \<Longrightarrow> P (emit e s) = P s"
  shows "P (snd (convert_to_markdown cfg w lib html sec s)) = P s"
  by (simp add: convert_to_markdown_def Let_def assms split: option.splits)

lemma render_section_frame:
  assumes log: "\<And>l m s. P (logm l m s) = P s"
    and em: "\<And>e s. \<not> is_file_event e \<Longrightarrow> P (emit e s) = P s"
    and bf: "\<And>s. P (bump_failed s) = P s"
  shows "P (snd (render_section cfg w lib sec s)) = P s"
proof -
  let ?s1 = "logm INFO (MsgScrapingSection (name sec)) s"
  obtain r s2 where mr: "make_request cfg w (base_url cfg @ url_suffix sec) None ?s1 = (r, s2)"
    by (cases "make_request cfg w (base_url cfg @ url_suffix sec) None ?s1")
  have "P s2 = P ?s1"
    using attempt_loop_frame [of P, OF log em] mr
    by (metis make_request_def snd_conv)
  then have s2: "P s2 = P s" by (simp add: log)
  show ?thesis
  proof (cases r)
    case None
    then show ?thesis using mr s2 by (simp add: render_section_def Let_def bf)
  next
    case (Some resp)
    show ?thesis
    proof (cases "response_ok resp")
      case False
      then show ?thesis using mr s2 Some by (simp add: render_section_def Let_def bf)
    next
      case True
      let ?soup = "clean_html cfg lib (parse lib (content resp))"
      obtain c s3 where ex: "extract_content cfg lib ?soup s2 = (c, s3)"
        by (cases "extract_content cfg lib ?soup s2")
      have s3: "P s3 = P s"
        using extract_loop_frame [of P, OF log] ex s2
        by (metis extract_content_def snd_conv)
      show ?thesis
      proof (cases c)
        case None
        then show ?thesis using mr Some True ex s3
          by (simp add: render_section_def Let_def bf log)
      next
        case (Some el)
        obtain m s4 where cv:
          "convert_to_markdown cfg w lib (to_str lib ?soup el) sec s3 = (m, s4)"
          by (cases "convert_to_markdown cfg w lib (to_str lib ?soup el) sec s3")
        have s4: "P s4 = P s"
          using convert_frame [of P, OF em] cv s3 by (metis snd_conv)
        show ?thesis using mr \<open>r = Some resp\<close> True ex Some cv s4
          by (cases m) (simp_all add: render_section_def Let_def bf log)
      qed
    qed
  qed
qed

lemma files_render_section [simp]: "files (snd (render_section cfg w lib sec s)) = files s"
  by (rule render_section_frame) simp_all

lemma index_events_append [simp]: "index_events (xs @ ys) = index_events xs @ index_events ys"
  by (simp add: index_events_def)

lemma index_events_Nil [simp]: "index_events [] = []"
  by (simp add: index_events_def)

lemma index_events_Cons [simp]:
  "index_events (e # tr) = (if is_index_event e then e # index_events tr else index_events tr)"
  by (simp add: index_events_def)

lemma trace_bump_failed [simp]: "trace (bump_failed s) = trace s"
  by (simp add: bump_failed_def)

lemma trace_bump_successful [simp]: "trace (bump_successful s) = trace s"
  by (simp add: bump_successful_def)

lemma not_file_not_index: "\<not> is_file_event e \<Longrightarrow> \<not> is_index_event e"
  by (cases e rule: is_index_event.cases) simp_all

lemma index_events_render_section [simp]:
  "index_events (trace (snd (render_section cfg w lib sec s))) = index_events (trace s)"
  by (rule render_section_frame [where P = "\<lambda>s. index_events (trace s)"])
    (simp_all add: not_file_not_index)

lemma index_events_save_section [simp]:
  "index_events (trace (snd (save_section cfg w sec markdown s))) = index_events (trace s)"
  by (simp add: save_section_def open_write_def Let_def split: option.splits)

lemma index_events_scrape_section [simp]:
  "index_events (trace (snd (scrape_section cfg w lib sec s))) = index_events (trace s)"
proof -
  obtain r s1 where rs: "render_section cfg w lib sec s = (r, s1)"
    by (cases "render_section cfg w lib sec s")
  then have "index_events (trace s1) = index_events (trace s)"
    using index_events_render_section [of cfg w lib sec s] by simp
  then show ?thesis using rs by (cases r) (simp_all add: scrape_section_def)
qed

lemma index_events_scrape_loop [simp]:
  "index_events (trace (scrape_loop cfg w lib secs i n s)) = index_events (trace s)"
  by (induction secs arbitrary: s i) (simp_all add: Let_def time_sleep_def)

lemma index_events_process [simp]:
  "index_events (trace (process cfg w lib secs s)) = index_events (trace s)"
  by (simp add: process_def Let_def)

lemma index_events_print_statistics [simp]:
  "index_events (trace (snd (print_statistics w s))) = index_events (trace s)"
  by (simp add: print_statistics_def Let_def)

lemma files_print_statistics [simp]: "files (snd (print_statistics w s)) = files s"
  by (simp add: print_statistics_def Let_def)

lemma foldl_bullets:
  "foldl (\<lambda>acc sec. acc @ [index_bullet sec]) h secs = h @ map index_bullet secs"
  by (induction secs arbitrary: h) simp_all

lemma index_content_document: "join_lines (index_content cfg dt) = index_document cfg dt"
  by (simp add: index_content_def index_document_def foldl_bullets)

lemma create_index_effect:
  "index_events (trace (snd (create_index cfg w s))) =
     index_events (trace s) @
     (if open_fails w (Suc (tick s)) (index_path cfg w)
      then [EvOpen IndexFile (index_path cfg w) False]
      else [EvOpen IndexFile (index_path cfg w) True,
            EvWrite IndexFile (index_path cfg w) (index_document cfg (now_local w (tick s)))
              (write_fault w (Suc (Suc (tick s))) (index_path cfg w) = None)])"
  "\<not> open_fails w (Suc (tick s)) (index_path cfg w) \<Longrightarrow>
   write_fault w (Suc (Suc (tick s))) (index_path cfg w) = None \<Longrightarrow>
     fst (create_index cfg w s) = None \<and>
     files (snd (create_index cfg w s)) (index_path cfg w) =
       Some (index_document cfg (now_local w (tick s)))"
  by (simp_all add: create_index_def open_write_def Let_def index_content_document
      split: option.splits)

lemma scrape_all_full:
  assumes "\<not> truthy flt"
  shows "snd (scrape_all cfg w lib flt s) =
     (case create_index cfg w (process cfg w lib (sections cfg) s) of
        (Some e, s2) \<Rightarrow> s2
      | (None, s2) \<Rightarrow> snd (print_statistics w s2))"
  using assms by (simp add: scrape_all_def Let_def selected_falsy split: prod.splits option.splits)

lemma scrape_all_filtered:
  assumes "truthy flt"
  shows "snd (scrape_all cfg w lib flt s) =
     (if selected cfg flt = [] then logm ERROR (MsgSectionNotFound (the flt)) s
      else snd (print_statistics w (process cfg w lib (selected cfg flt) s)))"
  using assms by (simp add: scrape_all_def Let_def)

lemma files_save_section_other:
  "q \<noteq> output_path cfg w sec \<Longrightarrow> files (snd (save_section cfg w sec markdown s)) q = files s q"
  by (simp add: save_section_def open_write_def Let_def split: option.splits)

lemma files_scrape_section_other:
  assumes "q \<noteq> output_path cfg w sec"
  shows "files (snd (scrape_section cfg w lib sec s)) q = files s q"
proof -
  obtain r s1 where rs: "render_section cfg w lib sec s = (r, s1)"
    by (cases "render_section cfg w lib sec s")
  have f1: "files s1 = files s" using files_render_section [of cfg w lib sec s] rs by simp
  show ?thesis
    using rs f1
    by (cases r) (simp_all add: scrape_section_def files_save_section_other [OF assms])
qed

lemma files_scrape_loop_other:
  "\<forall>sec \<in> set secs. output_path cfg w sec \<noteq> q \<Longrightarrow>
   files (scrape_loop cfg w lib secs i n s) q = files s q"
proof (induction secs arbitrary: s i)
  case Nil
  then show ?case by simp
next
  case (Cons sec rest)
  have q: "q \<noteq> output_path cfg w sec" using Cons.prems by auto
  have r: "\<forall>x \<in> set rest. output_path cfg w x \<noteq> q" using Cons.prems by simp
  show ?case
    by (simp add: Let_def Cons.IH [OF r] files_scrape_section_other [OF q])
qed

lemma files_process_other:
  "\<forall>sec \<in> set secs. output_path cfg w sec \<noteq> q \<Longrightarrow>
   files (process cfg w lib secs s) q = files s q"
  by (simp add: process_def Let_def files_scrape_loop_other)

text \<open>The index document, character by character.\<close>

lemma index_document_text:
  "index_document cfg dt =
     ''# Claude Code Documentation Index\<newline>\<newline>*Auto-generated documentation index*\<newline>\<newline>Last updated: '' @
     [''0123456789'' ! (year dt div 1000 mod 10), ''0123456789'' ! (year dt div 100 mod 10),
      ''0123456789'' ! (year dt div 10 mod 10), ''0123456789'' ! (year dt mod 10)] @ ''-'' @
     [''0123456789'' ! (month dt div 10 mod 10), ''0123456789'' ! (month dt mod 10)] @ ''-'' @
     [''0123456789'' ! (day dt div 10 mod 10), ''0123456789'' ! (day dt mod 10)] @ '' '' @
     [''0123456789'' ! (hour dt div 10 mod 10), ''0123456789'' ! (hour dt mod 10)] @ '':'' @
     [''0123456789'' ! (minute dt div 10 mod 10), ''0123456789'' ! (minute dt mod 10)] @ '':'' @
     [''0123456789'' ! (second dt div 10 mod 10), ''0123456789'' ! (second dt mod 10)] @
     '' UTC\<newline>\<newline>## Available Documentation Sections\<newline>'' @
     concat (map (\<lambda>sec. ''\<newline>- **['' @ name sec @ '']('' @ filename sec @ '')** - '' @
                          description sec) (sections cfg)) @
     ''\<newline>\<newline>## Usage\<newline>\<newline>This documentation is scraped automatically from the official Claude Code documentation.\<newline>Use these files for offline reference or with Claude Code's `/DOC` command workflow.\<newline>\<newline>---\<newline>\<newline>*Generated by Claude Code Documentation Auto-Updater*''"
  by (simp add: index_document_def join_lines_def index_header_def index_footer_def
      index_bullet_def strftime_def pad2_def pad4_def digit_def comp_def)

text \<open>
  C6. The index file is opened and written in a run exactly when no section filter
  is in force. A run with a filter has no event of the index file, and leaves the
  index file as it was unless a selected section has the index file as its output
  file. A run without a filter opens the index file once, after the sections, and
  writes one document: the title, the note that the index is generated, the line
  \<open>Last updated:\<close> with the time stamp \<open>YYYY-MM-DD HH:MM:SS UTC\<close>, the heading of the
  list, one line \<open>- **[name](filename)** - description\<close> for each configured section
  in the configured order, then the usage note and the footer, the lines joined by
  newlines; when the write succeeds the index file holds that document.
\<close>

theorem index_written_iff_full_run:
  "(truthy section_filter \<longrightarrow>
      index_events (trace (snd (scrape_all cfg w lib section_filter s))) =
        index_events (trace s) \<and>
      ((\<forall>sec \<in> set (selected cfg section_filter).
          joinpath w (docs_folder (output_conf cfg)) (filename sec) \<noteq>
          joinpath w (docs_folder (output_conf cfg)) (index_file (output_conf cfg))) \<longrightarrow>
       files (snd (scrape_all cfg w lib section_filter s))
           (joinpath w (docs_folder (output_conf cfg)) (index_file (output_conf cfg))) =
         files s (joinpath w (docs_folder (output_conf cfg)) (index_file (output_conf cfg))))) \<and>
   (\<not> truthy section_filter \<longrightarrow>
      (let s1 = process cfg w lib (sections cfg) s;
           p = joinpath w (docs_folder (output_conf cfg)) (index_file (output_conf cfg));
           dt = now_local w (tick s1);
           doc = ''# Claude Code Documentation Index\<newline>\<newline>*Auto-generated documentation index*\<newline>\<newline>Last updated: '' @
                   [''0123456789'' ! (year dt div 1000 mod 10),
                    ''0123456789'' ! (year dt div 100 mod 10),
                    ''0123456789'' ! (year dt div 10 mod 10), ''0123456789'' ! (year dt mod 10)] @
                   ''-'' @
                   [''0123456789'' ! (month dt div 10 mod 10), ''0123456789'' ! (month dt mod 10)] @
                   ''-'' @
                   [''0123456789'' ! (day dt div 10 mod 10), ''0123456789'' ! (day dt mod 10)] @
                   '' '' @
                   [''0123456789'' ! (hour dt div 10 mod 10), ''0123456789'' ! (hour dt mod 10)] @
                   '':'' @
                   [''0123456789'' ! (minute dt div 10 mod 10),
                    ''0123456789'' ! (minute dt mod 10)] @
                   '':'' @
                   [''0123456789'' ! (second dt div 10 mod 10),
                    ''0123456789'' ! (second dt mod 10)] @
                   '' UTC\<newline>\<newline>## Available Documentation Sections\<newline>'' @
                   concat (map (\<lambda>sec. ''\<newline>- **['' @ name sec @ '']('' @ filename sec @
                                        '')** - '' @ description sec) (sections cfg)) @
                   ''\<newline>\<newline>## Usage\<newline>\<newline>This documentation is scraped automatically from the official Claude Code documentation.\<newline>Use these files for offline reference or with Claude Code's `/DOC` command workflow.\<newline>\<newline>---\<newline>\<newline>*Generated by Claude Code Documentation Auto-Updater*'';
           s' = snd (scrape_all cfg w lib section_filter s)
       in index_events (trace s') =
            index_events (trace s) @
            (if open_fails w (Suc (tick s1)) p then [EvOpen IndexFile p False]
             else [EvOpen IndexFile p True,
                   EvWrite IndexFile p doc (write_fault w (Suc (Suc (tick s1))) p = None)]) \<and>
          (\<not> open_fails w (Suc (tick s1)) p \<and> write_fault w (Suc (Suc (tick s1))) p = None \<longrightarrow>
             files s' p = Some doc)))"
proof -
  have filtered: "index_events (trace (snd (scrape_all cfg w lib section_filter s))) =
        index_events (trace s)" if "truthy section_filter"
    using that by (simp add: scrape_all_filtered)
  have kept: "files (snd (scrape_all cfg w lib section_filter s)) (index_path cfg w) =
      files s (index_path cfg w)"
    if "truthy section_filter"
      "\<forall>sec \<in> set (selected cfg section_filter). output_path cfg w sec \<noteq> index_path cfg w"
    using that by (simp add: scrape_all_filtered files_process_other)
  have full: "index_events (trace (snd (scrape_all cfg w lib section_filter s))) =
      index_events (trace s) @
      (if open_fails w (Suc (tick (process cfg w lib (sections cfg) s))) (index_path cfg w)
       then [EvOpen IndexFile (index_path cfg w) False]
       else [EvOpen IndexFile (index_path cfg w) True,
             EvWrite IndexFile (index_path cfg w)
               (index_document cfg (now_local w (tick (process cfg w lib (sections cfg) s))))
               (write_fault w (Suc (Suc (tick (process cfg w lib (sections cfg) s))))
                  (index_path cfg w) = None)])"
    if "\<not> truthy section_filter"
  proof -
    let ?s1 = "process cfg w lib (sections cfg) s"
    obtain e s2 where ci: "create_index cfg w ?s1 = (e, s2)" by (cases "create_index cfg w ?s1")
    have "index_events (trace (snd (scrape_all cfg w lib section_filter s))) =
        index_events (trace s2)"
      using that ci by (cases e) (simp_all add: scrape_all_full)
    moreover have "index_events (trace s2) = index_events (trace (snd (create_index cfg w ?s1)))"
      using ci by simp
    ultimately show ?thesis using create_index_effect(1) [of cfg w ?s1] by simp
  qed
  have fileq: "files (snd (scrape_all cfg w lib section_filter s)) (index_path cfg w) =
      Some (index_document cfg (now_local w (tick (process cfg w lib (sections cfg) s))))"
    if "\<not> truthy section_filter"
      "\<not> open_fails w (Suc (tick (process cfg w lib (sections cfg) s))) (index_path cfg w)"
      "write_fault w (Suc (Suc (tick (process cfg w lib (sections cfg) s)))) (index_path cfg w) = None"
  proof -
    let ?s1 = "process cfg w lib (sections cfg) s"
    obtain e s2 where ci: "create_index cfg w ?s1 = (e, s2)" by (cases "create_index cfg w ?s1")
    from create_index_effect(2) [OF that(2,3)] ci
    have "e = None" and "files s2 (index_path cfg w) =
        Some (index_document cfg (now_local w (tick ?s1)))" by simp_all
    then show ?thesis using that(1) ci by (simp add: scrape_all_full)
  qed
  show ?thesis using filtered kept full fileq
    by (simp add: Let_def index_document_text index_path_def output_path_def)
qed

theorem index_written_iff_full_run_witness:
  "\<not> truthy None \<and> truthy (Some ''overview'') \<and>
   (\<forall>t. \<not> open_fails example_world t ''docs/README.md'') \<and>
   (\<forall>t. write_fault example_world t ''docs/README.md'' = None) \<and>
   files (snd (scrape_all two_sections_config example_world example_lib None
                 (init_state example_world))) ''docs/README.md'' =
     Some ''# Claude Code Documentation Index\<newline>\<newline>*Auto-generated documentation index*\<newline>\<newline>Last updated: 2024-01-05 14:00:09 UTC\<newline>\<newline>## Available Documentation Sections\<newline>\<newline>- **[overview](overview.md)** - Overview\<newline>- **[setup](setup.md)** - Set up\<newline>\<newline>## Usage\<newline>\<newline>This documentation is scraped automatically from the official Claude Code documentation.\<newline>Use these files for offline reference or with Claude Code's `/DOC` command workflow.\<newline>\<newline>---\<newline>\<newline>*Generated by Claude Code Documentation Auto-Updater*'' \<and>
   selected two_sections_config (Some ''overview'') = [overview] \<and>
   joinpath example_world ''docs'' (filename overview) \<noteq> ''docs/README.md'' \<and>
   index_events (trace (snd (scrape_all two_sections_config example_world example_lib
                               (Some ''overview'') (init_state example_world)))) = [] \<and>
   files (snd (scrape_all two_sections_config example_world example_lib
                 (Some ''overview'') (init_state example_world))) ''docs/README.md'' = None"
proof -
  have a: "\<not> truthy None" "truthy (Some ''overview'')" by (simp_all add: truthy_def)
  have b: "\<forall>t. \<not> open_fails example_world t ''docs/README.md''"
    "\<forall>t. write_fault example_world t ''docs/README.md'' = None"
    by (simp_all add: example_world_def)
  have p: "joinpath example_world (docs_folder (output_conf two_sections_config))
      (index_file (output_conf two_sections_config)) = ''docs/README.md''"
    by (simp add: two_sections_config_def example_config_def example_world_def)
  have d: "docs_folder (output_conf two_sections_config) = ''docs''"
    by (simp add: two_sections_config_def example_config_def)
  have p2: "joinpath example_world ''docs'' (index_file (output_conf two_sections_config)) =
      ''docs/README.md''"
    using p d by simp
  have n: "\<And>t. now_local example_world t = noon\<lparr>hour := 14\<rparr>"
    by (simp add: example_world_def)
  have secs: "sections two_sections_config = [overview, setup_section]"
    by (simp add: two_sections_config_def)
  have sel: "selected two_sections_config (Some ''overview'') = [overview]"
    by (simp add: selected_def two_sections_config_def overview_def setup_section_def)
  have ne: "joinpath example_world ''docs'' (filename overview) \<noteq> ''docs/README.md''"
    by (simp add: example_world_def overview_def)
  have i: "index_events (trace (init_state example_world)) = []"
    "files (init_state example_world) ''docs/README.md'' = None"
    by (simp_all add: init_state_def example_world_def)
  from index_written_iff_full_run
    [of None two_sections_config example_world example_lib "init_state example_world"] a b
  have full: "files (snd (scrape_all two_sections_config example_world example_lib None
                 (init_state example_world))) ''docs/README.md'' =
     Some ''# Claude Code Documentation Index\<newline>\<newline>*Auto-generated documentation index*\<newline>\<newline>Last updated: 2024-01-05 14:00:09 UTC\<newline>\<newline>## Available Documentation Sections\<newline>\<newline>- **[overview](overview.md)** - Overview\<newline>- **[setup](setup.md)** - Set up\<newline>\<newline>## Usage\<newline>\<newline>This documentation is scraped automatically from the official Claude Code documentation.\<newline>Use these files for offline reference or with Claude Code's `/DOC` command workflow.\<newline>\<newline>---\<newline>\<newline>*Generated by Claude Code Documentation Auto-Updater*''"
    by (simp add: Let_def p n secs noon_def overview_def setup_section_def)
  from index_written_iff_full_run
    [of "Some ''overview''" two_sections_config example_world example_lib
      "init_state example_world"] a i sel ne
  have filtered: "index_events (trace (snd (scrape_all two_sections_config example_world
        example_lib (Some ''overview'') (init_state example_world)))) = [] \<and>
      files (snd (scrape_all two_sections_config example_world example_lib
                 (Some ''overview'') (init_state example_world))) ''docs/README.md'' = None"
    by (simp add: d p2)
  show ?thesis using a b full sel ne filtered by blast
qed

lemmas pipeline_defs =
  scrape_section_def render_section_def save_section_def make_request_def
  try_get_def raise_for_status_def response_ok_def clean_html_def extract_content_def
  select_one_def convert_to_markdown_def open_write_def output_path_def get_flag_def
  section_header_def source_note_def timestamp_note_def strftime_def pad2_def pad4_def
  digit_def

lemmas run_defs =
  main_def scrape_all_def process_def create_index_def print_statistics_def selected_def
  truthy_def init_state_def index_path_def

lemmas example_defs =
  example_config_def example_world_def example_lib_def example_page_def overview_def noon_def
  full_run_def only_def

lemma upt_0_3: "[0..<3] = [0, 1, 2]"
  by (simp add: upt_rec)

lemma convert_to_markdown_shape:
  "md lib html = Some body \<Longrightarrow>
   fst (convert_to_markdown cfg w lib html sec s) =
     Inr ((if get_flag (add_section_headers (output_conf cfg)) then section_header sec else []) @
          body @
          (if get_flag (add_source_url (output_conf cfg)) then source_note cfg sec else []) @
          (if get_flag (add_timestamp (output_conf cfg))
           then timestamp_note (now_local w (tick s)) else []))"
  by (simp add: convert_to_markdown_def Let_def)

text \<open>
  C5. The heading, the source note and the time stamp are added in that order, but
  the time stamp is the local time of \<open>datetime.now()\<close> with the literal \<open>UTC\<close> after
  it, not the UTC time. In the example world, whose local clock reads 14:00:09 when
  the UTC clock reads 12:00:09, the rendered document ends with
  \<open>*Last updated: 2024-01-05 14:00:09 UTC*\<close>.
\<close>

theorem timestamp_is_local_time:
  "fst (convert_to_markdown example_config example_world example_lib
          ''<main class=real><h1>Hi</h1></main>'' overview (init_state example_world)) =
     Inr ''# Overview\<newline>\<newline>Hi\<newline>\<newline>---\<newline>\<newline>*Source: https://docs.example/en/overview*\<newline>*Last updated: 2024-01-05 14:00:09 UTC*\<newline>'' \<and>
   strftime (now_utc example_world (tick (init_state example_world))) =
     ''2024-01-05 12:00:09 UTC'' \<and>
   strftime (now_local example_world (tick (init_state example_world))) =
     ''2024-01-05 14:00:09 UTC''"
  by (simp add: pipeline_defs example_defs init_state_def Let_def)

lemma save_section_effect:
  "save_section cfg w sec markdown s1 = (ok, s') \<Longrightarrow>
   (\<forall>q. q \<noteq> output_path cfg w sec \<longrightarrow> files s' q = files s1 q) \<and>
   (if open_fails w (tick s1) (output_path cfg w sec) then \<not> ok \<and> files s' = files s1
    else (case write_fault w (Suc (tick s1)) (output_path cfg w sec) of
            None \<Rightarrow> ok \<and> files s' (output_path cfg w sec) = Some markdown
          | Some n \<Rightarrow> \<not> ok \<and> files s' (output_path cfg w sec) = Some (take n markdown)))"
  by (auto simp: save_section_def open_write_def Let_def split: option.splits if_splits)

text \<open>
  C7 (as the code has it). A failure to open or to write the output file of a
  section is caught in \<open>scrape_section\<close>: the call returns \<open>False\<close> and adds one to
  \<open>failed_scrapes\<close> only. Whatever the writes of the section files do, a run with a
  section filter returns without an exception, and so does a run without one when
  the index is written and a section is configured. \<open>create_index\<close> changes no
  counter, whatever happens to its write.
\<close>

theorem section_write_failure_is_counted:
  "(fst (render_section cfg w lib sec s) = Some markdown \<and>
    (open_fails w (tick (snd (render_section cfg w lib sec s))) (output_path cfg w sec) \<or>
     write_fault w (Suc (tick (snd (render_section cfg w lib sec s)))) (output_path cfg w sec)
       \<noteq> None) \<longrightarrow>
      \<not> fst (scrape_section cfg w lib sec s) \<and>
      counters (snd (scrape_section cfg w lib sec s)) =
        (total_sections (stats s), successful_scrapes (stats s), Suc (failed_scrapes (stats s)))) \<and>
   (truthy section_filter \<longrightarrow> fst (scrape_all cfg w lib section_filter s0) = None) \<and>
   (\<not> truthy section_filter \<and> sections cfg \<noteq> [] \<and>
    fst (create_index cfg w (process cfg w lib (sections cfg) s0)) = None \<longrightarrow>
      fst (scrape_all cfg w lib section_filter s0) = None) \<and>
   counters (snd (create_index cfg w s0)) = counters s0"
proof -
  have "\<not> fst (scrape_section cfg w lib sec s)"
    if r: "fst (render_section cfg w lib sec s) = Some markdown"
      and f: "open_fails w (tick (snd (render_section cfg w lib sec s))) (output_path cfg w sec) \<or>
        write_fault w (Suc (tick (snd (render_section cfg w lib sec s)))) (output_path cfg w sec)
          \<noteq> None"
  proof -
    obtain s1 where rs: "render_section cfg w lib sec s = (Some markdown, s1)"
      using r by (cases "render_section cfg w lib sec s") simp
    obtain ok s' where sv: "save_section cfg w sec markdown s1 = (ok, s')"
      by (cases "save_section cfg w sec markdown s1")
    from save_section_effect [OF sv] f rs have "\<not> ok" by (auto split: if_splits option.splits)
    then show ?thesis using rs sv by (simp add: scrape_section_def)
  qed
  then show ?thesis
    using scrape_section_counters [of cfg w lib sec s]
      scrape_all_outcome [of cfg w lib section_filter s0]
      counters_create_index [of cfg w s0]
    by auto
qed

theorem section_write_failure_is_counted_witness:
  "fst (render_section example_config full_disk_world example_lib overview
          (init_state full_disk_world)) =
     Some ''# Overview\<newline>\<newline>Hi\<newline>\<newline>---\<newline>\<newline>*Source: https://docs.example/en/overview*\<newline>*Last updated: 2024-01-05 14:00:09 UTC*\<newline>'' \<and>
   write_fault full_disk_world
     (Suc (tick (snd (render_section example_config full_disk_world example_lib overview
        (init_state full_disk_world)))))
     (output_path example_config full_disk_world overview) \<noteq> None \<and>
   \<not> fst (scrape_section example_config full_disk_world example_lib overview
           (init_state full_disk_world)) \<and>
   counters (snd (scrape_section example_config full_disk_world example_lib overview
           (init_state full_disk_world))) = (0, 0, 1) \<and>
   truthy (Some ''overview'') \<and>
   fst (scrape_all example_config full_disk_world example_lib (Some ''overview'')
          (init_state full_disk_world)) = None"
proof -
  have r: "fst (render_section example_config full_disk_world example_lib overview
          (init_state full_disk_world)) =
     Some ''# Overview\<newline>\<newline>Hi\<newline>\<newline>---\<newline>\<newline>*Source: https://docs.example/en/overview*\<newline>*Last updated: 2024-01-05 14:00:09 UTC*\<newline>''"
    by (simp add: full_disk_world_def pipeline_defs example_defs init_state_def Let_def
        logm_def emit_def bump_failed_def time_sleep_def upt_0_3)
  have f: "write_fault full_disk_world
     (Suc (tick (snd (render_section example_config full_disk_world example_lib overview
        (init_state full_disk_world)))))
     (output_path example_config full_disk_world overview) \<noteq> None"
    by (simp add: full_disk_world_def)
  have t: "truthy (Some ''overview'')" by (simp add: truthy_def)
  have z: "stats (init_state full_disk_world) =
      \<lparr>total_sections = 0, successful_scrapes = 0, failed_scrapes = 0,
       start_time = now_local full_disk_world 0\<rparr>"
    by (simp add: init_state_def)
  from section_write_failure_is_counted
    [of example_config full_disk_world example_lib overview "init_state full_disk_world" _
      "Some ''overview''" "init_state full_disk_world"] r f t z
  show ?thesis by simp
qed

text \<open>
  C7 (as stated) fails for the index file: when it cannot be opened, the exception
  leaves \<open>create_index\<close> and \<open>scrape_all\<close>, \<open>main\<close> exits with status 1 and no failure
  is counted.
\<close>

theorem index_write_failure_counterexample:
  "fst (scrape_all example_config locked_index_world example_lib None
          (init_state locked_index_world)) = Some OSError \<and>
   counters (snd (scrape_all example_config locked_index_world example_lib None
          (init_state locked_index_world))) = (1, 1, 0) \<and>
   last (trace (snd (scrape_all example_config locked_index_world example_lib None
          (init_state locked_index_world)))) = EvOpen IndexFile ''docs/README.md'' False \<and>
   fst (main locked_index_world example_lib full_run) = 1"
  by (simp add: locked_index_world_def run_defs pipeline_defs example_defs counters_def Let_def
      logm_def emit_def bump_successful_def bump_failed_def time_sleep_def upt_0_3)




subsection \<open>Two runs in step\<close>

lemma section_writes_append [simp]:
  "section_writes (xs @ ys) = section_writes xs @ section_writes ys"
  by (simp add: section_writes_def)

lemma section_writes_Nil [simp]: "section_writes [] = []"
  by (simp add: section_writes_def)

lemma section_writes_Cons [simp]:
  "section_writes (e # tr) = section_write e @ section_writes tr"
  by (simp add: section_writes_def)

lemma not_file_no_section_write: "\<not> is_file_event e \<Longrightarrow> section_write e = []"
  by (cases e rule: section_write.cases) simp_all

lemma section_writes_render_section [simp]:
  "section_writes (trace (snd (render_section cfg w lib sec s))) = section_writes (trace s)"
  by (rule render_section_frame [where P = "\<lambda>s. section_writes (trace s)"])
    (simp_all add: not_file_no_section_write)

lemma tick_time_sleep [simp]: "tick (time_sleep d s) = Suc (tick s)"
  by (simp add: time_sleep_def)

lemma tick_bump_failed [simp]: "tick (bump_failed s) = tick s"
  by (simp add: bump_failed_def)

lemma tick_bump_successful [simp]: "tick (bump_successful s) = tick s"
  by (simp add: bump_successful_def)

lemma try_get_cong: "http_get w1 = http_get w2 \<Longrightarrow> try_get w1 t url = try_get w2 t url"
  by (simp add: try_get_def)

lemma attempt_loop_sync:
  assumes "http_get w1 = http_get w2"
  shows "tick s1 = tick s2 \<Longrightarrow>
    fst (attempt_loop cfg w1 url r as s1) = fst (attempt_loop cfg w2 url r as s2) \<and>
    tick (snd (attempt_loop cfg w1 url r as s1)) = tick (snd (attempt_loop cfg w2 url r as s2))"
proof (induction as arbitrary: s1 s2)
  case Nil
  then show ?case by simp
next
  case (Cons a as)
  have tg: "try_get w1 (tick s1) url = try_get w2 (tick s2) url"
    using try_get_cong [OF assms] Cons.prems by simp
  show ?case
  proof (cases "try_get w2 (tick s2) url")
    case (Inr resp)
    then show ?thesis using tg Cons.prems by (simp add: Let_def)
  next
    case (Inl e)
    show ?thesis
    proof (cases "int a = r")
      case True
      then show ?thesis using tg Inl Cons.prems by (simp add: Let_def)
    next
      case False
      let ?n1 = "time_sleep (delay_between_requests (scraping cfg))
                   (logm WARNING (MsgAttemptFailed (a + 1) url e)
                      (emit (EvHttpGet url) (logm DEBUG (MsgRequesting url (a + 1) (r + 1)) s1)))"
      let ?n2 = "time_sleep (delay_between_requests (scraping cfg))
                   (logm WARNING (MsgAttemptFailed (a + 1) url e)
                      (emit (EvHttpGet url) (logm DEBUG (MsgRequesting url (a + 1) (r + 1)) s2)))"
      have "tick ?n1 = tick ?n2" using Cons.prems by simp
      from Cons.IH [OF this] show ?thesis using tg Inl False by (simp add: Let_def)
    qed
  qed
qed

lemma make_request_sync:
  assumes "http_get w1 = http_get w2" and "tick s1 = tick s2"
  shows "fst (make_request cfg w1 url ra s1) = fst (make_request cfg w2 url ra s2) \<and>
    tick (snd (make_request cfg w1 url ra s1)) = tick (snd (make_request cfg w2 url ra s2))"
  using attempt_loop_sync [OF assms] by (simp add: make_request_def Let_def)

lemma tick_extract_content [simp]: "tick (snd (extract_content cfg lib soup s)) = tick s"
  unfolding extract_content_def by (rule extract_loop_frame) simp

lemma fst_extract_content:
  "fst (extract_content cfg lib soup s) =
     first_matching lib soup (content_selectors (scraping cfg))"
  by (simp add: extract_content_def fst_extract_loop)

lemma same_but_stamp_refl [simp]: "same_but_stamp d d"
  by (simp add: same_but_stamp_def)

lemma same_but_stamp_notes [simp]:
  "same_but_stamp (body @ timestamp_note dt1) (body @ timestamp_note dt2)"
  unfolding same_but_stamp_def by blast

lemma convert_sync:
  assumes "tick s1 = tick s2"
  shows "tick (snd (convert_to_markdown cfg w1 lib html sec s1)) =
           tick (snd (convert_to_markdown cfg w2 lib html sec s2)) \<and>
         (case fst (convert_to_markdown cfg w1 lib html sec s1) of
            Inl e \<Rightarrow> fst (convert_to_markdown cfg w2 lib html sec s2) = Inl e
          | Inr d1 \<Rightarrow> (\<exists>d2. fst (convert_to_markdown cfg w2 lib html sec s2) = Inr d2 \<and>
                         same_but_stamp d1 d2))"
proof (cases "md lib html")
  case None
  then show ?thesis using assms by (simp add: convert_to_markdown_def)
next
  case (Some body)
  define pre where "pre =
     (if get_flag (add_section_headers (output_conf cfg)) then section_header sec else []) @
     body @
     (if get_flag (add_source_url (output_conf cfg)) then source_note cfg sec else [])"
  have f1: "fst (convert_to_markdown cfg w1 lib html sec s1) =
      Inr (pre @ (if get_flag (add_timestamp (output_conf cfg))
                   then timestamp_note (now_local w1 (tick s1)) else []))"
    using convert_to_markdown_shape [OF Some, of cfg w1 sec s1] by (simp add: pre_def)
  have f2: "fst (convert_to_markdown cfg w2 lib html sec s2) =
      Inr (pre @ (if get_flag (add_timestamp (output_conf cfg))
                   then timestamp_note (now_local w2 (tick s2)) else []))"
    using convert_to_markdown_shape [OF Some, of cfg w2 sec s2] by (simp add: pre_def)
  have sb: "same_but_stamp
      (pre @ (if get_flag (add_timestamp (output_conf cfg))
               then timestamp_note (now_local w1 (tick s1)) else []))
      (pre @ (if get_flag (add_timestamp (output_conf cfg))
               then timestamp_note (now_local w2 (tick s2)) else []))"
    by (cases "get_flag (add_timestamp (output_conf cfg))") simp_all
  have tk: "tick (snd (convert_to_markdown cfg w1 lib html sec s1)) =
           tick (snd (convert_to_markdown cfg w2 lib html sec s2))"
    using Some assms by (simp add: convert_to_markdown_def Let_def)
  show ?thesis unfolding f1 f2 using sb tk by simp
qed


lemma render_section_sync:
  assumes hg: "http_get w1 = http_get w2" and tk: "tick s1 = tick s2"
  shows "tick (snd (render_section cfg w1 lib sec s1)) =
           tick (snd (render_section cfg w2 lib sec s2)) \<and>
         (case fst (render_section cfg w1 lib sec s1) of
            None \<Rightarrow> fst (render_section cfg w2 lib sec s2) = None
          | Some d1 \<Rightarrow> (\<exists>d2. fst (render_section cfg w2 lib sec s2) = Some d2 \<and>
                          same_but_stamp d1 d2))"
proof -
  let ?url = "base_url cfg @ url_suffix sec"
  let ?l1 = "logm INFO (MsgScrapingSection (name sec)) s1"
  let ?l2 = "logm INFO (MsgScrapingSection (name sec)) s2"
  obtain r a1 where m1: "make_request cfg w1 ?url None ?l1 = (r, a1)"
    by (cases "make_request cfg w1 ?url None ?l1")
  obtain r2 a2 where m2: "make_request cfg w2 ?url None ?l2 = (r2, a2)"
    by (cases "make_request cfg w2 ?url None ?l2")
  have "tick ?l1 = tick ?l2" using tk by simp
  from make_request_sync [OF hg this, of cfg ?url None] m1 m2
  have r2: "r2 = r" and ta: "tick a1 = tick a2" by simp_all
  show ?thesis
  proof (cases r)
    case None
    then show ?thesis using m1 m2 r2 ta by (simp add: render_section_def Let_def)
  next
    case (Some resp)
    show ?thesis
    proof (cases "response_ok resp")
      case False
      then show ?thesis using m1 m2 r2 ta Some by (simp add: render_section_def Let_def)
    next
      case True
      let ?soup = "clean_html cfg lib (parse lib (content resp))"
      obtain c b1 where e1: "extract_content cfg lib ?soup a1 = (c, b1)"
        by (cases "extract_content cfg lib ?soup a1")
      obtain c2 b2 where e2: "extract_content cfg lib ?soup a2 = (c2, b2)"
        by (cases "extract_content cfg lib ?soup a2")
      have c2: "c2 = c"
        using fst_extract_content [of cfg lib ?soup a1] fst_extract_content [of cfg lib ?soup a2]
          e1 e2 by simp
      have tb: "tick b1 = tick b2"
        using tick_extract_content [of cfg lib ?soup a1] tick_extract_content [of cfg lib ?soup a2]
          e1 e2 ta by simp
      show ?thesis
      proof (cases c)
        case None
        then show ?thesis using m1 m2 r2 Some True e1 e2 c2 tb
          by (simp add: render_section_def Let_def)
      next
        case (Some el)
        let ?html = "to_str lib ?soup el"
        obtain x1 d1 where v1: "convert_to_markdown cfg w1 lib ?html sec b1 = (x1, d1)"
          by (cases "convert_to_markdown cfg w1 lib ?html sec b1")
        obtain x2 d2 where v2: "convert_to_markdown cfg w2 lib ?html sec b2 = (x2, d2)"
          by (cases "convert_to_markdown cfg w2 lib ?html sec b2")
        from convert_sync [OF tb, of cfg w1 lib ?html sec w2] v1 v2
        have td: "tick d1 = tick d2"
          and rel: "case x1 of Inl e \<Rightarrow> x2 = Inl e
                    | Inr t1 \<Rightarrow> (\<exists>t2. x2 = Inr t2 \<and> same_but_stamp t1 t2)"
          by (auto split: sum.splits)
        have r1: "render_section cfg w1 lib sec s1 =
            (case x1 of Inl e \<Rightarrow> (None, bump_failed (logm ERROR (MsgConvertFailed (name sec) e) d1))
             | Inr t \<Rightarrow> (Some t, d1))"
          using m1 \<open>r = Some resp\<close> True e1 Some v1 by (simp add: render_section_def Let_def)
        have r2': "render_section cfg w2 lib sec s2 =
            (case x2 of Inl e \<Rightarrow> (None, bump_failed (logm ERROR (MsgConvertFailed (name sec) e) d2))
             | Inr t \<Rightarrow> (Some t, d2))"
          using m2 r2 \<open>r = Some resp\<close> True e2 c2 Some v2 by (simp add: render_section_def Let_def)
        show ?thesis unfolding r1 r2' using td rel by (cases x1) auto
      qed
    qed
  qed
qed

lemma save_section_sync:
  assumes w: "same_but_clock w1 w2" and tk: "tick s1 = tick s2"
    and sb: "same_but_stamp d1 d2"
    and wr: "list_all2 same_write (section_writes (trace s1)) (section_writes (trace s2))"
  shows "tick (snd (save_section cfg w1 sec d1 s1)) = tick (snd (save_section cfg w2 sec d2 s2)) \<and>
    list_all2 same_write
      (section_writes (trace (snd (save_section cfg w1 sec d1 s1))))
      (section_writes (trace (snd (save_section cfg w2 sec d2 s2))))"
proof -
  have p: "output_path cfg w1 sec = output_path cfg w2 sec"
    using w by (simp add: output_path_def same_but_clock_def)
  have o: "open_fails w1 = open_fails w2" and f: "write_fault w1 = write_fault w2"
    using w by (simp_all add: same_but_clock_def)
  show ?thesis
    using tk sb wr
    by (simp add: save_section_def open_write_def Let_def p o f same_write_def list_all2_appendI
        split: option.splits)
qed

lemma scrape_section_sync:
  assumes w: "same_but_clock w1 w2" and tk: "tick s1 = tick s2"
    and wr: "list_all2 same_write (section_writes (trace s1)) (section_writes (trace s2))"
  shows "tick (snd (scrape_section cfg w1 lib sec s1)) =
           tick (snd (scrape_section cfg w2 lib sec s2)) \<and>
    list_all2 same_write
      (section_writes (trace (snd (scrape_section cfg w1 lib sec s1))))
      (section_writes (trace (snd (scrape_section cfg w2 lib sec s2))))"
proof -
  have hg: "http_get w1 = http_get w2" using w by (simp add: same_but_clock_def)
  obtain r1 a1 where q1: "render_section cfg w1 lib sec s1 = (r1, a1)"
    by (cases "render_section cfg w1 lib sec s1")
  obtain r2 a2 where q2: "render_section cfg w2 lib sec s2 = (r2, a2)"
    by (cases "render_section cfg w2 lib sec s2")
  from render_section_sync [OF hg tk, of cfg lib sec] q1 q2
  have ta: "tick a1 = tick a2"
    and rel: "case r1 of None \<Rightarrow> r2 = None
              | Some d1 \<Rightarrow> (\<exists>d2. r2 = Some d2 \<and> same_but_stamp d1 d2)"
    by (auto split: option.splits)
  have wa: "list_all2 same_write (section_writes (trace a1)) (section_writes (trace a2))"
    using section_writes_render_section [of cfg w1 lib sec s1]
      section_writes_render_section [of cfg w2 lib sec s2] q1 q2 wr by simp
  show ?thesis
  proof (cases r1)
    case None
    then have "r2 = None" using rel by simp
    then show ?thesis using None q1 q2 ta wa by (simp add: scrape_section_def)
  next
    case (Some d1)
    then obtain d2 where d2: "r2 = Some d2" and sb: "same_but_stamp d1 d2" using rel by auto
    from save_section_sync [OF w ta sb wa, of cfg sec]
    show ?thesis using Some d2 q1 q2 by (simp add: scrape_section_def)
  qed
qed

lemma scrape_loop_sync:
  assumes w: "same_but_clock w1 w2"
  shows "tick s1 = tick s2 \<Longrightarrow>
    list_all2 same_write (section_writes (trace s1)) (section_writes (trace s2)) \<Longrightarrow>
    tick (scrape_loop cfg w1 lib secs i n s1) = tick (scrape_loop cfg w2 lib secs i n s2) \<and>
    list_all2 same_write
      (section_writes (trace (scrape_loop cfg w1 lib secs i n s1)))
      (section_writes (trace (scrape_loop cfg w2 lib secs i n s2)))"
proof (induction secs arbitrary: s1 s2 i)
  case Nil
  then show ?case by simp
next
  case (Cons sec rest)
  let ?a1 = "logm INFO (MsgProcessing i n (name sec)) s1"
  let ?a2 = "logm INFO (MsgProcessing i n (name sec)) s2"
  let ?b1 = "snd (scrape_section cfg w1 lib sec ?a1)"
  let ?b2 = "snd (scrape_section cfg w2 lib sec ?a2)"
  let ?c1 = "if i < n then time_sleep (delay_between_requests (scraping cfg)) ?b1 else ?b1"
  let ?c2 = "if i < n then time_sleep (delay_between_requests (scraping cfg)) ?b2 else ?b2"
  have ta: "tick ?a1 = tick ?a2" using Cons.prems by simp
  have wa: "list_all2 same_write (section_writes (trace ?a1)) (section_writes (trace ?a2))"
    using Cons.prems by simp
  from scrape_section_sync [OF w ta wa, of cfg lib sec]
  have tb: "tick ?b1 = tick ?b2"
    and wb: "list_all2 same_write (section_writes (trace ?b1)) (section_writes (trace ?b2))"
    by simp_all
  have tc: "tick ?c1 = tick ?c2" using tb by simp
  have wc: "list_all2 same_write (section_writes (trace ?c1)) (section_writes (trace ?c2))"
    using wb by (simp add: time_sleep_def)
  from Cons.IH [OF tc wc, of "i + 1"] show ?case by (simp add: Let_def)
qed

lemma section_writes_create_index [simp]:
  "section_writes (trace (snd (create_index cfg w s))) = section_writes (trace s)"
  by (simp add: create_index_def open_write_def Let_def split: option.splits)

lemma section_writes_print_statistics [simp]:
  "section_writes (trace (snd (print_statistics w s))) = section_writes (trace s)"
  by (simp add: print_statistics_def Let_def)

lemma section_writes_scrape_all:
  "section_writes (trace (snd (scrape_all cfg w lib flt s))) =
     (if truthy flt \<and> selected cfg flt = [] then section_writes (trace s)
      else section_writes (trace (process cfg w lib (selected cfg flt) s)))"
proof (cases "truthy flt")
  case True
  then show ?thesis by (simp add: scrape_all_filtered)
next
  case False
  obtain e s2 where ci: "create_index cfg w (process cfg w lib (sections cfg) s) = (e, s2)"
    by (cases "create_index cfg w (process cfg w lib (sections cfg) s)")
  have "section_writes (trace s2) = section_writes (trace (process cfg w lib (sections cfg) s))"
    using section_writes_create_index [of cfg w "process cfg w lib (sections cfg) s"] ci by simp
  then show ?thesis using False ci
    by (cases e) (simp_all add: scrape_all_full selected_falsy)
qed

lemma process_sync:
  assumes w: "same_but_clock w1 w2" and tk: "tick s1 = tick s2"
    and wr: "list_all2 same_write (section_writes (trace s1)) (section_writes (trace s2))"
  shows "list_all2 same_write
      (section_writes (trace (process cfg w1 lib secs s1)))
      (section_writes (trace (process cfg w2 lib secs s2)))"
proof -
  let ?a1 = "logm INFO (MsgStarting (length secs))
               (s1\<lparr>stats := (stats s1)\<lparr>total_sections := length secs\<rparr>\<rparr>)"
  let ?a2 = "logm INFO (MsgStarting (length secs))
               (s2\<lparr>stats := (stats s2)\<lparr>total_sections := length secs\<rparr>\<rparr>)"
  have ta: "tick ?a1 = tick ?a2" using tk by simp
  have wa: "list_all2 same_write (section_writes (trace ?a1)) (section_writes (trace ?a2))"
    using wr by simp
  from scrape_loop_sync [OF w ta wa, of cfg lib secs 1 "length secs"]
  show ?thesis by (simp add: process_def Let_def)
qed

text \<open>
  C9. Two runs of \<open>scrape_all\<close> with the same configuration and section filter (two
  full runs when there is none), in two worlds that give the same answer to every
  request and file operation and differ in their clocks only, hand the same number
  of documents to the section files, to the same paths and with the same outcome,
  and two corresponding documents are equal or differ only in the time stamp note
  that ends them.
\<close>

theorem two_runs_same_markdown:
  assumes "same_but_clock w1 w2"
  shows "list_all2 same_write
      (section_writes (trace (snd (scrape_all cfg w1 lib section_filter (init_state w1)))))
      (section_writes (trace (snd (scrape_all cfg w2 lib section_filter (init_state w2)))))"
proof -
  have tk: "tick (init_state w1) = tick (init_state w2)" by (simp add: init_state_def)
  have wr: "list_all2 same_write (section_writes (trace (init_state w1)))
      (section_writes (trace (init_state w2)))"
    by (simp add: init_state_def)
  show ?thesis
    unfolding section_writes_scrape_all
    using wr process_sync [OF assms tk wr, of cfg lib "selected cfg section_filter"]
    by simp
qed


theorem two_runs_same_markdown_witness:
  "same_but_clock example_world later_world \<and>
   section_writes (trace (snd (scrape_all example_config example_world example_lib None
     (init_state example_world)))) =
     [(''docs/overview.md'',
       ''# Overview\<newline>\<newline>Hi\<newline>\<newline>---\<newline>\<newline>*Source: https://docs.example/en/overview*\<newline>*Last updated: 2024-01-05 14:00:09 UTC*\<newline>'',
       True)] \<and>
   section_writes (trace (snd (scrape_all example_config later_world example_lib None
     (init_state later_world)))) =
     [(''docs/overview.md'',
       ''# Overview\<newline>\<newline>Hi\<newline>\<newline>---\<newline>\<newline>*Source: https://docs.example/en/overview*\<newline>*Last updated: 2024-01-06 09:41:09 UTC*\<newline>'',
       True)] \<and>
   list_all2 same_write
     (section_writes (trace (snd (scrape_all example_config example_world example_lib None
        (init_state example_world)))))
     (section_writes (trace (snd (scrape_all example_config later_world example_lib None
        (init_state later_world)))))"
proof -
  have a: "same_but_clock example_world later_world"
    by (simp add: same_but_clock_def later_world_def)
  have sel: "\<not> (truthy None \<and> selected example_config None = [])"
    by (simp add: truthy_def)
  have e1: "section_writes (trace (snd (scrape_all example_config example_world example_lib None
     (init_state example_world)))) =
     [(''docs/overview.md'',
       ''# Overview\<newline>\<newline>Hi\<newline>\<newline>---\<newline>\<newline>*Source: https://docs.example/en/overview*\<newline>*Last updated: 2024-01-05 14:00:09 UTC*\<newline>'',
       True)]"
    unfolding section_writes_scrape_all using sel
    by (simp add: process_def selected_def init_state_def pipeline_defs example_defs Let_def
        logm_def emit_def bump_successful_def bump_failed_def time_sleep_def upt_0_3)
  have e2: "section_writes (trace (snd (scrape_all example_config later_world example_lib None
     (init_state later_world)))) =
     [(''docs/overview.md'',
       ''# Overview\<newline>\<newline>Hi\<newline>\<newline>---\<newline>\<newline>*Source: https://docs.example/en/overview*\<newline>*Last updated: 2024-01-06 09:41:09 UTC*\<newline>'',
       True)]"
    unfolding section_writes_scrape_all using sel
    by (simp add: later_world_def process_def selected_def init_state_def pipeline_defs
        example_defs Let_def logm_def emit_def bump_successful_def bump_failed_def
        time_sleep_def upt_0_3)
  from two_runs_same_markdown [OF a, of example_config example_lib None] a e1 e2
  show ?thesis by blast
qed

end
